theory Spec2Isabelle
  imports Main "HOL-Library.Word"
begin

section \<open>Values, exceptions and the outside world\<close>

text \<open>
  The program is a TCP port mapper (\<^verbatim>\<open>client.py\<close>).  Everything it does goes through the
  socket library, the console and the thread library, so the model threads one
  \<open>world\<close> through every call and reads the answers of the operating system from an
  oracle \<open>env\<close>.  A Python exception is a value of type \<open>exn\<close>; a call returns
  \<open>Returned v\<close> or \<open>Raised e\<close>.
\<close>

type_synonym bytes = "8 word list"
type_synonym sock = nat
type_synonym addr = "string \<times> int"

datatype exn = OSError string | ValueError | EOFError | KeyboardInterrupt

datatype 'a result = Returned 'a | Raised exn

text \<open>\<^verbatim>\<open>except Exception\<close> catches every class but the ones derived from
  \<^verbatim>\<open>BaseException\<close> alone; a bare \<^verbatim>\<open>except:\<close> catches all of them.\<close>

fun is_Exception :: "exn \<Rightarrow> bool" where
  "is_Exception KeyboardInterrupt = False"
| "is_Exception e = True"

datatype family = AF_INET
datatype socktype = SOCK_STREAM
datatype socklevel = SOL_SOCKET
datatype sockopt = SO_REUSEADDR

text \<open>One constructor per call of the socket library that the source makes.\<close>

datatype call =
    Socket family socktype
  | SetSockOpt sock socklevel sockopt int
  | Bind sock string int
  | Listen sock nat
  | Accept sock
  | CreateConnection string int nat
  | Recv sock nat
  | SendAll sock bytes
  | Close sock

datatype ret = Unit | Bytes bytes | NewSock sock | Accepted sock addr | Error string

text \<open>One constructor per \<^verbatim>\<open>print\<close>, \<^verbatim>\<open>log\<close> or \<^verbatim>\<open>input\<close> prompt of the source.  The
  text of a line is informational only, so a line is kept as its kind and its fields.\<close>

datatype message =
    Banner nat
  | Prompt_remote
  | Remote_required
  | Prompt_mapping
  | Format_must_be
  | Ports_must_be_integers
  | Added string int string int
  | No_mappings
  | Starting_all
  | All_active
  | Stopping
  | Forwarding string int string int
  | Incoming addr
  | Failed_connecting string int exn

datatype thread = Forwarder string int string int | Pipe sock sock

record world =
  stdin :: "string list"
  stdout :: "message list"
  trace :: "(call \<times> ret) list"
  closed :: "sock set"
  threads :: "thread list"

text \<open>
  The oracle answers the \<open>t\<close>-th socket call of a run, \<open>t\<close> being the number of calls made
  before it: \<open>fails\<close> says whether it raises \<^verbatim>\<open>OSError\<close> and with which message,
  \<open>incoming\<close> holds the bytes waiting on the connection when the call is a \<^verbatim>\<open>recv\<close>, and
  \<open>peer\<close> the address of the client when it is an \<^verbatim>\<open>accept\<close>.
\<close>

record env =
  fails :: "nat \<Rightarrow> string option"
  incoming :: "nat \<Rightarrow> bytes"
  peer :: "nat \<Rightarrow> addr"

definition now :: "world \<Rightarrow> nat" where
  "now w = length (trace w)"

definition record_call :: "call \<Rightarrow> ret \<Rightarrow> world \<Rightarrow> world" where
  "record_call c r w = w\<lparr>trace := trace w @ [(c, r)]\<rparr>"

section \<open>The socket library\<close>

text \<open>\<^verbatim>\<open>sock.recv(bufsize)\<close>: at most \<open>bufsize\<close> of the waiting bytes; the empty
  result is the orderly end of the stream.\<close>

definition recv :: "env \<Rightarrow> sock \<Rightarrow> nat \<Rightarrow> world \<Rightarrow> bytes result \<times> world" where
  "recv E s bufsize w =
     (case fails E (now w) of
        Some m \<Rightarrow> (Raised (OSError m), record_call (Recv s bufsize) (Error m) w)
      | None \<Rightarrow>
          (let data = take bufsize (incoming E (now w))
           in (Returned data, record_call (Recv s bufsize) (Bytes data) w)))"

definition sendall :: "env \<Rightarrow> sock \<Rightarrow> bytes \<Rightarrow> world \<Rightarrow> unit result \<times> world" where
  "sendall E s data w =
     (case fails E (now w) of
        Some m \<Rightarrow> (Raised (OSError m), record_call (SendAll s data) (Error m) w)
      | None \<Rightarrow> (Returned (), record_call (SendAll s data) Unit w))"

text \<open>\<^verbatim>\<open>sock.close()\<close> marks the socket object closed and releases its descriptor
  before the operating system's answer is looked at, so the handle is closed also when
  the call raises.\<close>

definition close :: "env \<Rightarrow> sock \<Rightarrow> world \<Rightarrow> unit result \<times> world" where
  "close E s w =
     (case fails E (now w) of
        Some m \<Rightarrow> (Raised (OSError m),
                   record_call (Close s) (Error m) (w\<lparr>closed := insert s (closed w)\<rparr>))
      | None \<Rightarrow> (Returned (),
                 record_call (Close s) Unit (w\<lparr>closed := insert s (closed w)\<rparr>)))"

section \<open>Exception handling\<close>

text \<open>\<^verbatim>\<open>try: ... except: pass\<close>\<close>

definition except_pass :: "unit result \<times> world \<Rightarrow> unit result \<times> world" where
  "except_pass rw = (case rw of (Raised e, w) \<Rightarrow> (Returned (), w) | (Returned u, w) \<Rightarrow> (Returned u, w))"

text \<open>\<^verbatim>\<open>try: ... finally: cleanup\<close>: the cleanup always runs; an exception it raises
  replaces the outcome of the body.\<close>

definition try_finally :: "unit result \<times> world \<Rightarrow> (world \<Rightarrow> unit result \<times> world) \<Rightarrow> unit result \<times> world" where
  "try_finally rw cleanup =
     (case cleanup (snd rw) of
        (Raised e, w') \<Rightarrow> (Raised e, w')
      | (Returned u, w') \<Rightarrow> (fst rw, w'))"

text \<open>Two statements in sequence: the second runs only when the first returned.\<close>

definition seq :: "(world \<Rightarrow> unit result \<times> world) \<Rightarrow> (world \<Rightarrow> unit result \<times> world) \<Rightarrow> world \<Rightarrow> unit result \<times> world" where
  "seq first second w =
     (case first w of (Raised e, w') \<Rightarrow> (Raised e, w') | (Returned u, w') \<Rightarrow> second w')"

text \<open>A function that is still inside a \<^verbatim>\<open>while True\<close> loop has status \<open>Running\<close>.\<close>

datatype status = Running | Finished "unit result"

section \<open>pipe\<close>

definition BUFFER_SIZE :: nat where
  "BUFFER_SIZE = 65535"

text \<open>The \<^verbatim>\<open>while True\<close> loop of \<open>pipe\<close> (lines 14 to 18).  It may run for ever:
  \<open>None\<close> is the run that never leaves the loop.\<close>

partial_function (option) pipe_loop :: "env \<Rightarrow> sock \<Rightarrow> sock \<Rightarrow> world \<Rightarrow> (unit result \<times> world) option" where
  "pipe_loop E src dst w =
     (case recv E src BUFFER_SIZE w of
        (Raised e, w1) \<Rightarrow> Some (Raised e, w1)
      | (Returned data, w1) \<Rightarrow>
          if data = [] then Some (Returned (), w1)
          else (case sendall E dst data w1 of
                  (Raised e, w2) \<Rightarrow> Some (Raised e, w2)
                | (Returned u, w2) \<Rightarrow> pipe_loop E src dst w2))"


text \<open>The \<^verbatim>\<open>finally\<close> block of \<open>pipe\<close> (lines 22 to 25).\<close>

definition pipe_cleanup :: "env \<Rightarrow> sock \<Rightarrow> sock \<Rightarrow> world \<Rightarrow> unit result \<times> world" where
  "pipe_cleanup E src dst =
     seq (\<lambda>w. except_pass (close E src w)) (\<lambda>w. except_pass (close E dst w))"

definition pipe :: "env \<Rightarrow> sock \<Rightarrow> sock \<Rightarrow> world \<Rightarrow> (unit result \<times> world) option" where
  "pipe E src dst w =
     (case pipe_loop E src dst w of
        None \<Rightarrow> None
      | Some rw \<Rightarrow> Some (try_finally (except_pass rw) (pipe_cleanup E src dst)))"


section \<open>start\_forwarder\<close>

text \<open>A new socket object is named by the number of the call that made it.\<close>

definition socket :: "env \<Rightarrow> family \<Rightarrow> socktype \<Rightarrow> world \<Rightarrow> sock result \<times> world" where
  "socket E f t w =
     (case fails E (now w) of
        Some m \<Rightarrow> (Raised (OSError m), record_call (Socket f t) (Error m) w)
      | None \<Rightarrow> (Returned (now w), record_call (Socket f t) (NewSock (now w)) w))"

definition setsockopt :: "env \<Rightarrow> sock \<Rightarrow> socklevel \<Rightarrow> sockopt \<Rightarrow> int \<Rightarrow> world \<Rightarrow> unit result \<times> world" where
  "setsockopt E s lvl opt v w =
     (case fails E (now w) of
        Some m \<Rightarrow> (Raised (OSError m), record_call (SetSockOpt s lvl opt v) (Error m) w)
      | None \<Rightarrow> (Returned (), record_call (SetSockOpt s lvl opt v) Unit w))"

definition bind :: "env \<Rightarrow> sock \<Rightarrow> string \<Rightarrow> int \<Rightarrow> world \<Rightarrow> unit result \<times> world" where
  "bind E s host port w =
     (case fails E (now w) of
        Some m \<Rightarrow> (Raised (OSError m), record_call (Bind s host port) (Error m) w)
      | None \<Rightarrow> (Returned (), record_call (Bind s host port) Unit w))"

definition listen :: "env \<Rightarrow> sock \<Rightarrow> nat \<Rightarrow> world \<Rightarrow> unit result \<times> world" where
  "listen E s backlog w =
     (case fails E (now w) of
        Some m \<Rightarrow> (Raised (OSError m), record_call (Listen s backlog) (Error m) w)
      | None \<Rightarrow> (Returned (), record_call (Listen s backlog) Unit w))"

definition accept :: "env \<Rightarrow> sock \<Rightarrow> world \<Rightarrow> (sock \<times> addr) result \<times> world" where
  "accept E s w =
     (case fails E (now w) of
        Some m \<Rightarrow> (Raised (OSError m), record_call (Accept s) (Error m) w)
      | None \<Rightarrow> (Returned (now w, peer E (now w)),
                 record_call (Accept s) (Accepted (now w) (peer E (now w))) w))"

definition create_connection :: "env \<Rightarrow> string \<Rightarrow> int \<Rightarrow> nat \<Rightarrow> world \<Rightarrow> sock result \<times> world" where
  "create_connection E host port timeout w =
     (case fails E (now w) of
        Some m \<Rightarrow> (Raised (OSError m), record_call (CreateConnection host port timeout) (Error m) w)
      | None \<Rightarrow> (Returned (now w), record_call (CreateConnection host port timeout) (NewSock (now w)) w))"

definition print :: "message \<Rightarrow> world \<Rightarrow> world" where
  "print msg w = w\<lparr>stdout := stdout w @ [msg]\<rparr>"

definition log :: "message \<Rightarrow> world \<Rightarrow> world" where
  "log msg w = print msg w"

text \<open>\<^verbatim>\<open>threading.Thread(target=..., args=..., daemon=True).start()\<close>\<close>

definition start_thread :: "thread \<Rightarrow> world \<Rightarrow> world" where
  "start_thread t w = w\<lparr>threads := threads w @ [t]\<rparr>"

text \<open>
  The accept loop (lines 37 to 50), observed for \<open>n\<close> iterations.  The loop has no
  \<^verbatim>\<open>break\<close>: it is left only by an exception that nothing catches.  The handler of
  line 43 catches the classes under \<^verbatim>\<open>Exception\<close>; \<^verbatim>\<open>accept\<close> (line 38) and
  the \<^verbatim>\<open>close\<close> of line 45 are outside every \<^verbatim>\<open>try\<close>.
\<close>

fun accept_loop :: "nat \<Rightarrow> env \<Rightarrow> sock \<Rightarrow> string \<Rightarrow> int \<Rightarrow> world \<Rightarrow> status \<times> world" where
  "accept_loop 0 E listener remote_ip remote_port w = (Running, w)"
| "accept_loop (Suc n) E listener remote_ip remote_port w =
     (case accept E listener w of
        (Raised e, w1) \<Rightarrow> (Finished (Raised e), w1)
      | (Returned (client_sock, addr), w1) \<Rightarrow>
          (let w2 = log (Incoming addr) w1 in
           case create_connection E remote_ip remote_port 10 w2 of
             (Raised e, w3) \<Rightarrow>
               if is_Exception e then
                 (let w4 = log (Failed_connecting remote_ip remote_port e) w3 in
                  case close E client_sock w4 of
                    (Raised e', w5) \<Rightarrow> (Finished (Raised e'), w5)
                  | (Returned u, w5) \<Rightarrow> accept_loop n E listener remote_ip remote_port w5)
               else (Finished (Raised e), w3)
           | (Returned remote_sock, w3) \<Rightarrow>
               (let w4 = start_thread (Pipe client_sock remote_sock) w3;
                    w5 = start_thread (Pipe remote_sock client_sock) w4
                in accept_loop n E listener remote_ip remote_port w5)))"

definition start_forwarder :: "nat \<Rightarrow> env \<Rightarrow> string \<Rightarrow> int \<Rightarrow> string \<Rightarrow> int \<Rightarrow> world \<Rightarrow> status \<times> world" where
  "start_forwarder n E local_ip local_port remote_ip remote_port w =
     (case socket E AF_INET SOCK_STREAM w of
        (Raised e, w1) \<Rightarrow> (Finished (Raised e), w1)
      | (Returned listener, w1) \<Rightarrow>
     (case setsockopt E listener SOL_SOCKET SO_REUSEADDR 1 w1 of
        (Raised e, w2) \<Rightarrow> (Finished (Raised e), w2)
      | (Returned u, w2) \<Rightarrow>
     (case bind E listener local_ip local_port w2 of
        (Raised e, w3) \<Rightarrow> (Finished (Raised e), w3)
      | (Returned u, w3) \<Rightarrow>
     (case listen E listener 50 w3 of
        (Raised e, w4) \<Rightarrow> (Finished (Raised e), w4)
      | (Returned u, w4) \<Rightarrow>
          accept_loop n E listener remote_ip remote_port
            (log (Forwarding local_ip local_port remote_ip remote_port) w4)))))"

section \<open>main\<close>

text \<open>Text is a list of characters with code points below 256.  These are the ones
  \<^verbatim>\<open>str.isspace\<close> holds for.\<close>

definition isspace :: "char \<Rightarrow> bool" where
  "isspace c \<longleftrightarrow> c \<in> set [CHR 0x09, CHR 0x0A, CHR 0x0B, CHR 0x0C, CHR 0x0D,
                          CHR 0x1C, CHR 0x1D, CHR 0x1E, CHR 0x1F, CHR 0x20, CHR 0x85, CHR 0xA0]"

definition str_strip :: "string \<Rightarrow> string" where
  "str_strip s = rev (dropWhile isspace (rev (dropWhile isspace s)))"

text \<open>\<^verbatim>\<open>str.split()\<close> without arguments: the maximal runs of characters that are not
  whitespace; \<open>cur\<close> is the run being read.\<close>

fun split_from :: "string \<Rightarrow> string \<Rightarrow> string list" where
  "split_from cur [] = (if cur = [] then [] else [cur])"
| "split_from cur (c # cs) =
     (if isspace c then (if cur = [] then split_from [] cs else cur # split_from [] cs)
      else split_from (cur @ [c]) cs)"

definition str_split :: "string \<Rightarrow> string list" where
  "str_split s = split_from [] s"

definition isdigit :: "char \<Rightarrow> bool" where
  "isdigit c \<longleftrightarrow> c \<in> set ''0123456789''"

definition digit_value :: "char \<Rightarrow> nat" where
  "digit_value c = of_char c - 48"

text \<open>The digits of a decimal literal, with single underscores allowed between two
  digits; \<open>need\<close> says that the next character has to be a digit.\<close>

fun int_digits :: "bool \<Rightarrow> nat \<Rightarrow> string \<Rightarrow> nat option" where
  "int_digits need acc [] = (if need then None else Some acc)"
| "int_digits need acc (c # cs) =
     (if isdigit c then int_digits False (10 * acc + digit_value c) cs
      else if c = CHR ''_'' \<and> \<not> need then int_digits True acc cs
      else None)"

text \<open>The white space that \<^verbatim>\<open>int\<close> skips around a literal: the white space of ASCII, and
  U+0085 and U+00A0, which it turns into spaces first.  The separators U+001C to U+001F,
  which \<^verbatim>\<open>str.strip\<close> and \<^verbatim>\<open>str.split\<close> take for white space, are not in it.\<close>

definition int_space :: "char \<Rightarrow> bool" where
  "int_space c \<longleftrightarrow> c \<in> set [CHR 0x09, CHR 0x0A, CHR 0x0B, CHR 0x0C, CHR 0x0D,
                            CHR 0x20, CHR 0x85, CHR 0xA0]"

text \<open>The default of \<^verbatim>\<open>sys.int_max_str_digits\<close>: \<^verbatim>\<open>int\<close> raises \<^verbatim>\<open>ValueError\<close> on a
  literal with more digits, the sign and the underscores not counted.\<close>

definition int_max_str_digits :: nat where
  "int_max_str_digits = 4300"

text \<open>The builtin \<^verbatim>\<open>int(s)\<close> on text: \<open>None\<close> is \<^verbatim>\<open>ValueError\<close>.\<close>

definition py_int :: "string \<Rightarrow> int option" where
  "py_int s =
     (case rev (dropWhile int_space (rev (dropWhile int_space s))) of
        [] \<Rightarrow> None
      | c # cs \<Rightarrow>
          if int_max_str_digits < length (filter isdigit (c # cs)) then None
          else if c = CHR ''-'' then map_option (\<lambda>n. - int n) (int_digits True 0 cs)
          else if c = CHR ''+'' then map_option int (int_digits True 0 cs)
          else map_option int (int_digits True 0 (c # cs)))"

text \<open>\<^verbatim>\<open>input(prompt)\<close> writes the prompt and reads one line; at the end of the
  standard input it raises \<^verbatim>\<open>EOFError\<close>.\<close>

definition input :: "message \<Rightarrow> world \<Rightarrow> string result \<times> world" where
  "input prompt w =
     (case stdin w of
        [] \<Rightarrow> (Raised EOFError, print prompt w)
      | l # ls \<Rightarrow> (Returned l, print prompt (w\<lparr>stdin := ls\<rparr>)))"

type_synonym mapping = "string \<times> int \<times> string \<times> int"

text \<open>The input loop of \<open>main\<close> (lines 68 to 87).\<close>

function input_loop :: "string \<Rightarrow> mapping list \<Rightarrow> world \<Rightarrow> mapping list result \<times> world" where
  "input_loop remote_ip mappings w =
     (case input Prompt_mapping w of
        (Raised e, w1) \<Rightarrow> (Raised e, w1)
      | (Returned line, w1) \<Rightarrow>
          (let entry = str_strip line in
           if entry = [] then (Returned mappings, w1)
           else
             (let parts = str_split entry in
              if length parts \<noteq> 3
              then input_loop remote_ip mappings (print Format_must_be w1)
              else
                (let local_ip = parts ! 0 in
                 case py_int (parts ! 1) of
                   None \<Rightarrow> input_loop remote_ip mappings (print Ports_must_be_integers w1)
                 | Some local_port \<Rightarrow>
                     (case py_int (parts ! 2) of
                        None \<Rightarrow> input_loop remote_ip mappings (print Ports_must_be_integers w1)
                      | Some remote_port \<Rightarrow>
                          input_loop remote_ip
                            (mappings @ [(local_ip, local_port, remote_ip, remote_port)])
                            (print (Added local_ip local_port remote_ip remote_port) w1))))))"
  by pat_completeness auto
termination
  by (relation "measure (\<lambda>(r, m, w). length (stdin w))")
     (auto simp: input_def print_def split: list.splits)

definition banner :: "world \<Rightarrow> world" where
  "banner w = print (Banner 5) (print (Banner 4) (print (Banner 3)
                (print (Banner 2) (print (Banner 1) (print (Banner 0) w)))))"

text \<open>The \<^verbatim>\<open>for\<close> loop of lines 96 to 101.\<close>

fun start_all :: "mapping list \<Rightarrow> world \<Rightarrow> world" where
  "start_all [] w = w"
| "start_all ((local_ip, local_port, r_ip, r_port) # ms) w =
     start_all ms (start_thread (Forwarder local_ip local_port r_ip r_port) w)"

text \<open>The keep-alive loop (lines 106 to 110): \<open>k\<close> waits return, the interrupt
  arrives in the next one.\<close>

fun wait_loop :: "nat \<Rightarrow> world \<Rightarrow> unit result \<times> world" where
  "wait_loop 0 w = (Raised KeyboardInterrupt, w)"
| "wait_loop (Suc k) w = wait_loop k w"

text \<open>\<open>sigint\<close> is the wait in which the interrupt arrives, \<open>None\<close> when it never does.\<close>

definition keep_alive :: "nat option \<Rightarrow> world \<Rightarrow> status \<times> world" where
  "keep_alive sigint w =
     (case sigint of
        None \<Rightarrow> (Running, w)
      | Some k \<Rightarrow>
          (case wait_loop k w of
             (Raised e, w1) \<Rightarrow>
               if e = KeyboardInterrupt then (Finished (Returned ()), print Stopping w1)
               else (Finished (Raised e), w1)
           | (Returned u, w1) \<Rightarrow> (Finished (Returned u), w1)))"

definition main :: "nat option \<Rightarrow> world \<Rightarrow> status \<times> world" where
  "main sigint w =
     (case input Prompt_remote (banner w) of
        (Raised e, w1) \<Rightarrow> (Finished (Raised e), w1)
      | (Returned line, w1) \<Rightarrow>
          (let remote_ip = str_strip line in
           if remote_ip = [] then (Finished (Returned ()), print Remote_required w1)
           else
             (case input_loop remote_ip [] w1 of
                (Raised e, w2) \<Rightarrow> (Finished (Raised e), w2)
              | (Returned mappings, w2) \<Rightarrow>
                  if mappings = [] then (Finished (Returned ()), print No_mappings w2)
                  else keep_alive sigint
                         (print All_active (start_all mappings (print Starting_all w2))))))"

section \<open>The threads of the process\<close>

text \<open>
  \<^verbatim>\<open>Thread.start\<close> runs the target in a thread of its own.  An exception that leaves the
  target ends that thread and no other: the interpreter catches it at the bottom of the
  thread and reports it on standard error (\<^verbatim>\<open>threading.excepthook\<close>), where the program
  itself writes nothing.
\<close>

datatype report = Exception_in_thread thread exn

text \<open>A listener thread has not run yet, or is in its accept loop on its listening
  socket, or has ended.\<close>

datatype progress = Not_started | Listening sock | Ended "unit result"

record process =
  listeners :: "(thread \<times> progress) list"
  stderr :: "report list"
  shared :: world

text \<open>
  One turn of a listener thread.  The first turn is \<open>start_forwarder\<close> up to its loop
  (lines 30 to 35), whose socket is the one made by its first call; every later turn is
  one iteration of the loop (lines 37 to 50).  A thread that has ended does nothing, and
  the relay threads take no turn here.
\<close>

fun turn :: "env \<Rightarrow> thread \<times> progress \<Rightarrow> world \<Rightarrow> (thread \<times> progress) \<times> report list \<times> world" where
  "turn E (Forwarder a b c d, Not_started) w =
     (case start_forwarder 0 E a b c d w of
        (Running, w1) \<Rightarrow> ((Forwarder a b c d, Listening (now w)), [], w1)
      | (Finished (Raised e), w1) \<Rightarrow>
          ((Forwarder a b c d, Ended (Raised e)), [Exception_in_thread (Forwarder a b c d) e], w1)
      | (Finished (Returned u), w1) \<Rightarrow> ((Forwarder a b c d, Ended (Returned u)), [], w1))"
| "turn E (Forwarder a b c d, Listening l) w =
     (case accept_loop (Suc 0) E l c d w of
        (Running, w1) \<Rightarrow> ((Forwarder a b c d, Listening l), [], w1)
      | (Finished (Raised e), w1) \<Rightarrow>
          ((Forwarder a b c d, Ended (Raised e)), [Exception_in_thread (Forwarder a b c d) e], w1)
      | (Finished (Returned u), w1) \<Rightarrow> ((Forwarder a b c d, Ended (Returned u)), [], w1))"
| "turn E tp w = (tp, [], w)"

text \<open>The threads take their turns in the order of \<open>sched\<close>, a list of positions in
  \<open>listeners\<close>.\<close>

fun schedule :: "env \<Rightarrow> nat list \<Rightarrow> process \<Rightarrow> process" where
  "schedule E [] p = p"
| "schedule E (i # sched) p =
     (if i < length (listeners p) then
        (case turn E (listeners p ! i) (shared p) of
           (tp, rs, w1) \<Rightarrow>
             schedule E sched
               \<lparr>listeners = (listeners p)[i := tp], stderr = stderr p @ rs, shared = w1\<rparr>)
      else schedule E sched p)"

text \<open>The process when \<open>main\<close> has started its threads and none of them has run.\<close>

definition spawn :: "world \<Rightarrow> process" where
  "spawn w = \<lparr>listeners = map (\<lambda>t. (t, Not_started)) (threads w), stderr = [], shared = w\<rparr>"


section \<open>Observations on a trace\<close>









section \<open>Concrete runs\<close>

definition world0 :: world where
  "world0 = \<lparr>stdin = [], stdout = [], trace = [], closed = {}, threads = []\<rparr>"

text \<open>Two chunks, then the end of the stream; the close of the source raises.\<close>

definition env_two_chunks :: env where
  "env_two_chunks =
     \<lparr>fails = (\<lambda>t. if t = 5 then Some ''EIO'' else None),
      incoming = (\<lambda>t. if t = 0 then [1, 2, 3] else if t = 2 then [4, 5] else []),
      peer = (\<lambda>t. ([], 0))\<rparr>"

text \<open>The first read raises, and so do both closes.\<close>

definition env_all_fail :: env where
  "env_all_fail = \<lparr>fails = (\<lambda>t. Some ''EBADF''), incoming = (\<lambda>t. []), peer = (\<lambda>t. ([], 0))\<rparr>"


text \<open>The calls that set a listening socket up (lines 30 to 33).\<close>

fun is_setup_call :: "call \<Rightarrow> bool" where
  "is_setup_call (Socket f t) = True"
| "is_setup_call (SetSockOpt s l opt v) = True"
| "is_setup_call (Bind s h p) = True"
| "is_setup_call (Listen s b) = True"
| "is_setup_call c = False"

text \<open>The listener is set up and its first \<^verbatim>\<open>accept\<close> raises.\<close>

definition env_accept_fails :: env where
  "env_accept_fails =
     \<lparr>fails = (\<lambda>t. if t = 4 then Some ''EMFILE'' else None),
      incoming = (\<lambda>t. []), peer = (\<lambda>t. (''198.51.100.7'', 40000))\<rparr>"

text \<open>The first client is accepted and the dial to the remote target is refused.\<close>

definition env_dial_fails :: env where
  "env_dial_fails =
     \<lparr>fails = (\<lambda>t. if t = 5 then Some ''ECONNREFUSED'' else None),
      incoming = (\<lambda>t. []), peer = (\<lambda>t. (''198.51.100.7'', 40000))\<rparr>"

text \<open>The dial is refused, and the close of the accepted connection raises too.\<close>

definition env_dial_close_fail :: env where
  "env_dial_close_fail =
     \<lparr>fails = (\<lambda>t. if t = 5 then Some ''ECONNREFUSED'' else if t = 6 then Some ''EIO'' else None),
      incoming = (\<lambda>t. []), peer = (\<lambda>t. (''198.51.100.7'', 40000))\<rparr>"

text \<open>The local port is taken: \<^verbatim>\<open>bind\<close> raises.\<close>

definition env_bind_fails :: env where
  "env_bind_fails =
     \<lparr>fails = (\<lambda>t. if t = 2 then Some ''EADDRINUSE'' else None),
      incoming = (\<lambda>t. []), peer = (\<lambda>t. (''198.51.100.7'', 40000))\<rparr>"

text \<open>Nothing raises.\<close>

definition env_quiet :: env where
  "env_quiet = \<lparr>fails = (\<lambda>t. None), incoming = (\<lambda>t. []), peer = (\<lambda>t. (''198.51.100.7'', 40000))\<rparr>"

text \<open>The lines typed for two mappings to the same remote host.\<close>

definition stdin_two_mappings :: "string list" where
  "stdin_two_mappings = [''203.0.113.5'', ''127.0.0.1 2222 22'', ''127.0.0.1 8080 80'', '''']"

text \<open>Three mappings; the listener of the second is up when the first one starts, and
  the \<^verbatim>\<open>bind\<close> of the first raises.\<close>

definition env_bind_fails_late :: env where
  "env_bind_fails_late =
     \<lparr>fails = (\<lambda>t. if t = 6 then Some ''EADDRINUSE'' else None),
      incoming = (\<lambda>t. []), peer = (\<lambda>t. (''198.51.100.7'', 40000))\<rparr>"

definition one_listening :: process where
  "one_listening =
     schedule env_bind_fails_late [1]
       (spawn (start_all [(''127.0.0.1'', 2222, ''203.0.113.5'', 22),
                          (''127.0.0.1'', 8080, ''203.0.113.5'', 80),
                          (''127.0.0.1'', 8443, ''203.0.113.5'', 443)] world0))"

section \<open>Simplification sets\<close>

text \<open>The equation of the input loop is unfolded by hand: as a rewrite rule it would
  unfold itself for ever.\<close>

declare input_loop.simps [simp del]

lemmas sock_defs = socket_def setsockopt_def bind_def listen_def accept_def
  create_connection_def close_def log_def print_def start_thread_def now_def record_call_def

lemmas text_defs = str_strip_def str_split_def isspace_def py_int_def isdigit_def digit_value_def
  int_space_def int_max_str_digits_def

section \<open>Facts about the socket calls\<close>



lemma close_cases:
  "close E s w = (r, w1) \<Longrightarrow>
     (\<exists>k. trace w1 = trace w @ [(Close s, k)]) \<and> closed w1 = insert s (closed w)
     \<and> stdout w1 = stdout w \<and> stdin w1 = stdin w \<and> threads w1 = threads w"
  by (auto simp: close_def record_call_def split: option.splits)

lemma pipe_cleanup_effect:
  "\<exists>w' k1 k2. pipe_cleanup E src dst w = (Returned (), w')
     \<and> trace w' = trace w @ [(Close src, k1), (Close dst, k2)]
     \<and> closed w' = insert dst (insert src (closed w))
     \<and> stdout w' = stdout w \<and> stdin w' = stdin w \<and> threads w' = threads w"
  by (auto simp: pipe_cleanup_def seq_def except_pass_def close_def record_call_def now_def split: option.splits)








lemma now_record_call: "now (record_call c r w) = Suc (now w)"
  by (simp add: now_def record_call_def)

lemma pipe_loop_returns:
  "fails E (now w + 2 * k) \<noteq> None \<or> take BUFFER_SIZE (incoming E (now w + 2 * k)) = []
     \<or> fails E (now w + 2 * k + 1) \<noteq> None
   \<Longrightarrow> \<exists>rw. pipe_loop E src dst w = Some rw"
proof (induction k arbitrary: w)
  case 0
  then show ?case
    by (subst pipe_loop.simps)
       (auto simp: recv_def sendall_def Let_def now_record_call split: option.splits)
next
  case (Suc k)
  show ?case
  proof (cases "fails E (now w) = None \<and> take BUFFER_SIZE (incoming E (now w)) \<noteq> []
                  \<and> fails E (Suc (now w)) = None")
    case False
    then show ?thesis
      by (subst pipe_loop.simps)
         (auto simp: recv_def sendall_def Let_def now_record_call split: option.splits)
  next
    case True
    let ?d = "take BUFFER_SIZE (incoming E (now w))"
    let ?w2 = "record_call (SendAll dst ?d) Unit (record_call (Recv src BUFFER_SIZE) (Bytes ?d) w)"
    have unfold: "pipe_loop E src dst w = pipe_loop E src dst ?w2"
      using True
      by (subst pipe_loop.simps) (simp add: recv_def sendall_def Let_def now_record_call)
    have "now ?w2 = now w + 2" by (simp add: now_record_call)
    with Suc.prems have "fails E (now ?w2 + 2 * k) \<noteq> None
        \<or> take BUFFER_SIZE (incoming E (now ?w2 + 2 * k)) = []
        \<or> fails E (now ?w2 + 2 * k + 1) \<noteq> None"
      by (simp add: add.commute add.left_commute)
    from Suc.IH[OF this] unfold show ?thesis by simp
  qed
qed


lemma pipe_two_chunks:
  "pipe env_two_chunks 7 8 world0 =
     Some (Returned (),
       \<lparr>stdin = [], stdout = [],
        trace = [(Recv 7 65535, Bytes [1, 2, 3]), (SendAll 8 [1, 2, 3], Unit),
                 (Recv 7 65535, Bytes [4, 5]), (SendAll 8 [4, 5], Unit),
                 (Recv 7 65535, Bytes []),
                 (Close 7, Error ''EIO''), (Close 8, Unit)],
        closed = {7, 8}, threads = []\<rparr>)"
  by (simp add: pipe_def pipe_loop.simps recv_def sendall_def close_def now_def record_call_def
      BUFFER_SIZE_def world0_def env_two_chunks_def try_finally_def except_pass_def
      pipe_cleanup_def seq_def insert_commute Let_def)

lemma pipe_all_fail:
  "pipe env_all_fail 7 8 (world0\<lparr>closed := {7, 8}\<rparr>) =
     Some (Returned (),
       \<lparr>stdin = [], stdout = [],
        trace = [(Recv 7 65535, Error ''EBADF''),
                 (Close 7, Error ''EBADF''), (Close 8, Error ''EBADF'')],
        closed = {7, 8}, threads = []\<rparr>)"
  by (simp add: pipe_def pipe_loop.simps recv_def sendall_def close_def now_def record_call_def
      BUFFER_SIZE_def world0_def env_all_fail_def try_finally_def except_pass_def
      pipe_cleanup_def seq_def insert_commute Let_def)


text \<open>\<open>pipe\<close> returns as soon as one read is empty or raises, or one write raises.\<close>

lemma pipe_returns:
  "fails E (now w + 2 * k) \<noteq> None \<or> take BUFFER_SIZE (incoming E (now w + 2 * k)) = []
     \<or> fails E (now w + 2 * k + 1) \<noteq> None
   \<Longrightarrow> \<exists>rw. pipe E src dst w = Some rw"
  using pipe_loop_returns[of E w k src dst] by (auto simp: pipe_def)

section \<open>Facts about the loop of pipe\<close>









section \<open>Claims about pipe\<close>







text \<open>
  C6 (idempotent close).  The cleanup of \<open>pipe\<close> returns normally whatever the two
  closes answer, it always makes both of them, on handles that are already closed it
  leaves the set of closed handles as it was, and no exception leaves \<open>pipe\<close>.
\<close>

theorem pipe_cleanup_never_raises:
  "fst (pipe_cleanup E src dst w) = Returned () \<and>
   map fst (drop (length (trace w)) (trace (snd (pipe_cleanup E src dst w)))) = [Close src, Close dst] \<and>
   take (length (trace w)) (trace (snd (pipe_cleanup E src dst w))) = trace w \<and>
   (src \<in> closed w \<longrightarrow> dst \<in> closed w \<longrightarrow> closed (snd (pipe_cleanup E src dst w)) = closed w) \<and>
   (\<forall>r w'. pipe E src dst w = Some (r, w') \<longrightarrow> r = Returned ())"
proof -
  from pipe_cleanup_effect[of E src dst w] obtain w2 k1 k2 where
    c: "pipe_cleanup E src dst w = (Returned (), w2)"
       "trace w2 = trace w @ [(Close src, k1), (Close dst, k2)]"
       "closed w2 = insert dst (insert src (closed w))" by blast
  have ret: "r = Returned ()" if p: "pipe E src dst w = Some (r, w')" for r w'
  proof -
    from p obtain rw where l: "pipe_loop E src dst w = Some rw"
      by (auto simp: pipe_def split: option.splits)
    obtain r1 w1 where e: "except_pass rw = (Returned (), w1)"
      by (cases rw; cases "fst rw") (auto simp: except_pass_def)
    from pipe_cleanup_effect[of E src dst w1] obtain w3 where
      "pipe_cleanup E src dst w1 = (Returned (), w3)" by blast
    with p l e show ?thesis
      by (simp add: pipe_def try_finally_def)
  qed
  from c ret show ?thesis by (auto simp: insert_absorb)
qed

theorem pipe_cleanup_never_raises_witness:
  "7 \<in> closed (world0\<lparr>closed := {7, 8}\<rparr>) \<and> 8 \<in> closed (world0\<lparr>closed := {7, 8}\<rparr>) \<and>
   pipe_cleanup env_all_fail 7 8 (world0\<lparr>closed := {7, 8}\<rparr>) =
     (Returned (), \<lparr>stdin = [], stdout = [],
        trace = [(Close 7, Error ''EBADF''), (Close 8, Error ''EBADF'')],
        closed = {7, 8}, threads = []\<rparr>) \<and>
   closed (snd (pipe_cleanup env_all_fail 7 8 (world0\<lparr>closed := {7, 8}\<rparr>))) = {7, 8} \<and>
   pipe env_all_fail 7 8 (world0\<lparr>closed := {7, 8}\<rparr>) =
     Some (Returned (),
       \<lparr>stdin = [], stdout = [],
        trace = [(Recv 7 65535, Error ''EBADF''),
                 (Close 7, Error ''EBADF''), (Close 8, Error ''EBADF'')],
        closed = {7, 8}, threads = []\<rparr>)"
proof -
  have e: "pipe_cleanup env_all_fail 7 8 (world0\<lparr>closed := {7, 8}\<rparr>) =
     (Returned (), \<lparr>stdin = [], stdout = [],
        trace = [(Close 7, Error ''EBADF''), (Close 8, Error ''EBADF'')],
        closed = {7, 8}, threads = []\<rparr>)"
    by (simp add: pipe_cleanup_def seq_def except_pass_def close_def now_def record_call_def
        world0_def env_all_fail_def insert_commute)
  from pipe_cleanup_never_raises[of env_all_fail 7 8 "world0\<lparr>closed := {7, 8}\<rparr>"]
  have "closed (snd (pipe_cleanup env_all_fail 7 8 (world0\<lparr>closed := {7, 8}\<rparr>))) = {7, 8}"
    by (simp add: world0_def)
  with e pipe_all_fail show ?thesis by (simp add: world0_def)
qed

section \<open>Claims about start\_forwarder\<close>

subsection \<open>Runs on concrete environments\<close>

lemma sf_quiet:
  "start_forwarder (Suc (Suc 0)) env_quiet ''127.0.0.1'' 2222 ''203.0.113.5'' 22 world0 =
     (Running,
      \<lparr>stdin = [],
       stdout = [Forwarding ''127.0.0.1'' 2222 ''203.0.113.5'' 22,
                 Incoming (''198.51.100.7'', 40000), Incoming (''198.51.100.7'', 40000)],
       trace = [(Socket AF_INET SOCK_STREAM, NewSock 0),
                (SetSockOpt 0 SOL_SOCKET SO_REUSEADDR 1, Unit),
                (Bind 0 ''127.0.0.1'' 2222, Unit),
                (Listen 0 50, Unit),
                (Accept 0, Accepted 4 (''198.51.100.7'', 40000)),
                (CreateConnection ''203.0.113.5'' 22 10, NewSock 5),
                (Accept 0, Accepted 6 (''198.51.100.7'', 40000)),
                (CreateConnection ''203.0.113.5'' 22 10, NewSock 7)],
       closed = {}, threads = [Pipe 4 5, Pipe 5 4, Pipe 6 7, Pipe 7 6]\<rparr>)"
  by (simp add: start_forwarder_def sock_defs world0_def env_quiet_def Let_def)

lemma sf_dial_fails:
  "start_forwarder (Suc (Suc 0)) env_dial_fails ''127.0.0.1'' 2222 ''203.0.113.5'' 22 world0 =
     (Running,
      \<lparr>stdin = [],
       stdout = [Forwarding ''127.0.0.1'' 2222 ''203.0.113.5'' 22,
                 Incoming (''198.51.100.7'', 40000),
                 Failed_connecting ''203.0.113.5'' 22 (OSError ''ECONNREFUSED''),
                 Incoming (''198.51.100.7'', 40000)],
       trace = [(Socket AF_INET SOCK_STREAM, NewSock 0),
                (SetSockOpt 0 SOL_SOCKET SO_REUSEADDR 1, Unit),
                (Bind 0 ''127.0.0.1'' 2222, Unit),
                (Listen 0 50, Unit),
                (Accept 0, Accepted 4 (''198.51.100.7'', 40000)),
                (CreateConnection ''203.0.113.5'' 22 10, Error ''ECONNREFUSED''),
                (Close 4, Unit),
                (Accept 0, Accepted 7 (''198.51.100.7'', 40000)),
                (CreateConnection ''203.0.113.5'' 22 10, NewSock 8)],
       closed = {4}, threads = [Pipe 7 8, Pipe 8 7]\<rparr>)"
  by (simp add: start_forwarder_def sock_defs world0_def env_dial_fails_def Let_def)

lemma accept_loop_calls:
  "\<exists>rest. trace (snd (accept_loop n E l rip rport w)) = trace w @ rest \<and>
      (\<forall>x \<in> set rest. \<not> is_setup_call (fst x))"
proof (induction n arbitrary: w)
  case 0
  then show ?case by simp
next
  case (Suc n)
  show ?case
  proof (cases "fails E (now w)")
    case (Some m)
    then show ?thesis by (simp add: accept_def record_call_def)
  next
    case None
    let ?w1 = "record_call (Accept l) (Accepted (now w) (peer E (now w))) w"
    let ?w2 = "log (Incoming (peer E (now w))) ?w1"
    have t2: "trace ?w2 = trace w @ [(Accept l, Accepted (now w) (peer E (now w)))]"
      by (simp add: log_def print_def record_call_def)
    show ?thesis
    proof (cases "fails E (now ?w2)")
      case dial_ok: None
      let ?w3 = "record_call (CreateConnection rip rport 10) (NewSock (now ?w2)) ?w2"
      let ?w5 = "start_thread (Pipe (now ?w2) (now w)) (start_thread (Pipe (now w) (now ?w2)) ?w3)"
      have eq: "accept_loop (Suc n) E l rip rport w = accept_loop n E l rip rport ?w5"
        using None dial_ok by (simp add: accept_def create_connection_def Let_def)
      have t5: "trace ?w5 = trace w @ [(Accept l, Accepted (now w) (peer E (now w))),
                  (CreateConnection rip rport 10, NewSock (now ?w2))]"
        using t2 by (simp add: start_thread_def record_call_def)
      from Suc.IH[of ?w5] obtain rest where
        r: "trace (snd (accept_loop n E l rip rport ?w5)) = trace ?w5 @ rest"
           "\<forall>x \<in> set rest. \<not> is_setup_call (fst x)" by blast
      from r t5 have "trace (snd (accept_loop (Suc n) E l rip rport w)) =
          trace w @ ([(Accept l, Accepted (now w) (peer E (now w))),
                  (CreateConnection rip rport 10, NewSock (now ?w2))] @ rest)"
        by (simp only: eq append_assoc)
      moreover have "\<forall>x \<in> set ([(Accept l, Accepted (now w) (peer E (now w))),
                  (CreateConnection rip rport 10, NewSock (now ?w2))] @ rest). \<not> is_setup_call (fst x)"
        using r(2) by simp
      ultimately show ?thesis by blast
    next
      case dial_fails: (Some m)
      let ?w3 = "record_call (CreateConnection rip rport 10) (Error m) ?w2"
      let ?w4 = "log (Failed_connecting rip rport (OSError m)) ?w3"
      have t4: "trace ?w4 = trace w @ [(Accept l, Accepted (now w) (peer E (now w))),
                  (CreateConnection rip rport 10, Error m)]"
        using t2 by (simp add: log_def print_def record_call_def)
      show ?thesis
      proof (cases "fails E (now ?w4)")
        case (Some m')
        have "accept_loop (Suc n) E l rip rport w =
            (Finished (Raised (OSError m')), record_call (Close (now w)) (Error m') (?w4\<lparr>closed := insert (now w) (closed ?w4)\<rparr>))"
          using None dial_fails Some by (simp add: accept_def create_connection_def close_def Let_def)
        then have "trace (snd (accept_loop (Suc n) E l rip rport w)) =
            trace w @ [(Accept l, Accepted (now w) (peer E (now w))),
                  (CreateConnection rip rport 10, Error m), (Close (now w), Error m')]"
          using t4 by (simp add: record_call_def)
        then show ?thesis by simp
      next
        case close_ok: None
        let ?w5 = "record_call (Close (now w)) Unit (?w4\<lparr>closed := insert (now w) (closed ?w4)\<rparr>)"
        have eq: "accept_loop (Suc n) E l rip rport w = accept_loop n E l rip rport ?w5"
          using None dial_fails close_ok by (simp add: accept_def create_connection_def close_def Let_def)
        have t5: "trace ?w5 = trace w @ [(Accept l, Accepted (now w) (peer E (now w))),
                  (CreateConnection rip rport 10, Error m), (Close (now w), Unit)]"
          using t4 by (simp add: record_call_def)
        from Suc.IH[of ?w5] obtain rest where
          r: "trace (snd (accept_loop n E l rip rport ?w5)) = trace ?w5 @ rest"
             "\<forall>x \<in> set rest. \<not> is_setup_call (fst x)" by blast
        from r t5 have "trace (snd (accept_loop (Suc n) E l rip rport w)) =
            trace w @ ([(Accept l, Accepted (now w) (peer E (now w))),
                  (CreateConnection rip rport 10, Error m), (Close (now w), Unit)] @ rest)"
          by (simp only: eq append_assoc)
        moreover have "\<forall>x \<in> set ([(Accept l, Accepted (now w) (peer E (now w))),
                  (CreateConnection rip rport 10, Error m), (Close (now w), Unit)] @ rest). \<not> is_setup_call (fst x)"
          using r(2) by simp
        ultimately show ?thesis by blast
      qed
    qed
  qed
qed

subsection \<open>Accept failure\<close>

text \<open>
  C3 (accept failure), as the specification states it: an error raised by \<^verbatim>\<open>accept\<close> is
  logged and the accept loop goes on.  It does not hold.  Here the listener is set up,
  three iterations of the loop are observed and the first \<^verbatim>\<open>accept\<close> raises: the run is
  over with that error after one \<^verbatim>\<open>accept\<close>, and the only line written is the one of
  line 35.
\<close>

theorem accept_failure_counterexample:
  "start_forwarder (Suc (Suc (Suc 0))) env_accept_fails ''127.0.0.1'' 2222 ''203.0.113.5'' 22 world0 =
     (Finished (Raised (OSError ''EMFILE'')),
      \<lparr>stdin = [], stdout = [Forwarding ''127.0.0.1'' 2222 ''203.0.113.5'' 22],
       trace = [(Socket AF_INET SOCK_STREAM, NewSock 0),
                (SetSockOpt 0 SOL_SOCKET SO_REUSEADDR 1, Unit),
                (Bind 0 ''127.0.0.1'' 2222, Unit),
                (Listen 0 50, Unit),
                (Accept 0, Error ''EMFILE'')],
       closed = {}, threads = []\<rparr>)"
  by (simp add: start_forwarder_def sock_defs world0_def env_accept_fails_def Let_def)

text \<open>
  C3 as amended.  An error raised by \<^verbatim>\<open>accept\<close> is not caught: whatever the number of
  iterations still to come, the accept loop ends at that call with the error, which leaves
  \<open>start_forwarder\<close>; nothing is written and no thread is started for it.
\<close>

theorem accept_failure_ends_listener:
  "fails E (now w) = Some m \<Longrightarrow>
   accept_loop (Suc n) E listener remote_ip remote_port w =
     (Finished (Raised (OSError m)), record_call (Accept listener) (Error m) w) \<and>
   stdout (record_call (Accept listener) (Error m) w) = stdout w \<and>
   threads (record_call (Accept listener) (Error m) w) = threads w"
  by (simp add: accept_def record_call_def)

theorem accept_failure_ends_listener_witness:
  "fails env_all_fail (now world0) = Some ''EBADF'' \<and>
   accept_loop (Suc 4) env_all_fail 0 ''203.0.113.5'' 22 world0 =
     (Finished (Raised (OSError ''EBADF'')),
      \<lparr>stdin = [], stdout = [], trace = [(Accept 0, Error ''EBADF'')], closed = {}, threads = []\<rparr>)"
proof -
  have h: "fails env_all_fail (now world0) = Some ''EBADF''"
    by (simp add: env_all_fail_def)
  from accept_failure_ends_listener[OF h, of 4 0 "''203.0.113.5''" 22] h
  show ?thesis by (simp add: world0_def record_call_def)
qed

subsection \<open>Dial failure\<close>

text \<open>
  C4 (dial failure) on the run where the close of the accepted connection raises as well.
  The dial error is logged and the accepted connection is closed, but the error of the
  close (line 45, inside the handler and outside any \<^verbatim>\<open>try\<close>) leaves \<open>start_forwarder\<close>:
  the loop does not go on to the next \<^verbatim>\<open>accept\<close>, other than in \<open>pipe\<close>, where each
  close has its own handler.
\<close>

theorem dial_failure_close_raises:
  "start_forwarder (Suc (Suc (Suc 0))) env_dial_close_fail ''127.0.0.1'' 2222 ''203.0.113.5'' 22 world0 =
     (Finished (Raised (OSError ''EIO'')),
      \<lparr>stdin = [],
       stdout = [Forwarding ''127.0.0.1'' 2222 ''203.0.113.5'' 22,
                 Incoming (''198.51.100.7'', 40000),
                 Failed_connecting ''203.0.113.5'' 22 (OSError ''ECONNREFUSED'')],
       trace = [(Socket AF_INET SOCK_STREAM, NewSock 0),
                (SetSockOpt 0 SOL_SOCKET SO_REUSEADDR 1, Unit),
                (Bind 0 ''127.0.0.1'' 2222, Unit),
                (Listen 0 50, Unit),
                (Accept 0, Accepted 4 (''198.51.100.7'', 40000)),
                (CreateConnection ''203.0.113.5'' 22 10, Error ''ECONNREFUSED''),
                (Close 4, Error ''EIO'')],
       closed = {4}, threads = []\<rparr>)"
  by (simp add: start_forwarder_def sock_defs world0_def env_dial_close_fail_def Let_def)

text \<open>When the close returns, a failed dial is contained: the error is logged, the
  accepted connection is closed, no thread is started, and the loop goes on.\<close>

lemma dial_failure_contained:
  assumes "fails E (now w) = None" "fails E (Suc (now w)) = Some m" "fails E (Suc (Suc (now w))) = None"
  shows "accept_loop (Suc n) E listener remote_ip remote_port w =
         accept_loop n E listener remote_ip remote_port
           \<lparr>stdin = stdin w,
            stdout = stdout w @ [Incoming (peer E (now w)),
                                 Failed_connecting remote_ip remote_port (OSError m)],
            trace = trace w @ [(Accept listener, Accepted (now w) (peer E (now w))),
                               (CreateConnection remote_ip remote_port 10, Error m),
                               (Close (now w), Unit)],
            closed = insert (now w) (closed w),
            threads = threads w\<rparr>"
  using assms by (cases w) (simp add: sock_defs Let_def)

subsection \<open>Bind failure\<close>

text \<open>The turns of a listener thread, and a thread that has ended.\<close>

lemma start_forwarder_bind_fails:
  assumes "fails E (now w) = None" "fails E (Suc (now w)) = None" "fails E (Suc (Suc (now w))) = Some m"
  shows "start_forwarder n E a b c d w =
           (Finished (Raised (OSError m)),
            w\<lparr>trace := trace w @ [(Socket AF_INET SOCK_STREAM, NewSock (now w)),
                                  (SetSockOpt (now w) SOL_SOCKET SO_REUSEADDR 1, Unit),
                                  (Bind (now w) a b, Error m)]\<rparr>)"
  using assms by (simp add: start_forwarder_def sock_defs)

lemma turn_bind_fails:
  assumes "fails E (now w) = None" "fails E (Suc (now w)) = None" "fails E (Suc (Suc (now w))) = Some m"
  shows "turn E (Forwarder a b c d, Not_started) w =
           ((Forwarder a b c d, Ended (Raised (OSError m))),
            [Exception_in_thread (Forwarder a b c d) (OSError m)],
            w\<lparr>trace := trace w @ [(Socket AF_INET SOCK_STREAM, NewSock (now w)),
                                  (SetSockOpt (now w) SOL_SOCKET SO_REUSEADDR 1, Unit),
                                  (Bind (now w) a b, Error m)]\<rparr>)"
  by (simp add: start_forwarder_bind_fails[OF assms])

lemma turn_ended: "turn E (t, Ended r) w = ((t, Ended r), [], w)"
  by (cases t) simp_all

lemma turn_accepts:
  assumes "fails E (now w) = None" "fails E (Suc (now w)) = None"
  shows "turn E (Forwarder a b c d, Listening l) w =
           ((Forwarder a b c d, Listening l), [],
            \<lparr>stdin = stdin w,
             stdout = stdout w @ [Incoming (peer E (now w))],
             trace = trace w @ [(Accept l, Accepted (now w) (peer E (now w))),
                                (CreateConnection c d 10, NewSock (Suc (now w)))],
             closed = closed w,
             threads = threads w @ [Pipe (now w) (Suc (now w)), Pipe (Suc (now w)) (now w)]\<rparr>)"
  using assms by (cases w) (simp add: sock_defs Let_def)

lemma turn_opens:
  assumes "fails E (now w) = None" "fails E (Suc (now w)) = None"
          "fails E (Suc (Suc (now w))) = None" "fails E (Suc (Suc (Suc (now w)))) = None"
  shows "turn E (Forwarder a b c d, Not_started) w =
           ((Forwarder a b c d, Listening (now w)), [],
            \<lparr>stdin = stdin w,
             stdout = stdout w @ [Forwarding a b c d],
             trace = trace w @ [(Socket AF_INET SOCK_STREAM, NewSock (now w)),
                                (SetSockOpt (now w) SOL_SOCKET SO_REUSEADDR 1, Unit),
                                (Bind (now w) a b, Unit),
                                (Listen (now w) 50, Unit)],
             closed = closed w,
             threads = threads w\<rparr>)"
  using assms by (cases w) (simp add: start_forwarder_def sock_defs Let_def)

lemma schedule_ended:
  "i < length (listeners p) \<Longrightarrow> snd (listeners p ! i) = Ended r \<Longrightarrow>
   schedule E sched p = schedule E (filter (\<lambda>k. k \<noteq> i) sched) p \<and>
   listeners (schedule E sched p) ! i = listeners p ! i"
proof (induction sched arbitrary: p)
  case Nil
  then show ?case by simp
next
  case (Cons k sched)
  note IH = Cons.IH[OF Cons.prems]
  show ?case
  proof (cases "k = i")
    case True
    obtain t where t: "listeners p ! i = (t, Ended r)"
      using Cons.prems(2) by (cases "listeners p ! i") simp
    have same: "(listeners p)[i := (t, Ended r)] = listeners p"
      using t by (metis list_update_id)
    have eta: "\<lparr>listeners = listeners p, stderr = stderr p, shared = shared p\<rparr> = p"
      by (cases p) simp
    have eq: "schedule E (k # sched) p = schedule E sched p"
      using True Cons.prems(1) by (simp add: t turn_ended same eta)
    have f: "filter (\<lambda>k. k \<noteq> i) (k # sched) = filter (\<lambda>k. k \<noteq> i) sched"
      using True by simp
    show ?thesis unfolding eq f using IH .
  next
    case False
    then have f: "filter (\<lambda>k. k \<noteq> i) (k # sched) = k # filter (\<lambda>k. k \<noteq> i) sched"
      by simp
    show ?thesis
    proof (cases "k < length (listeners p)")
      case False
      then have eq: "schedule E (k # xs) p = schedule E xs p" for xs by simp
      show ?thesis unfolding f eq using IH .
    next
      case True
      obtain tp rs w1 where tu: "turn E (listeners p ! k) (shared p) = (tp, rs, w1)"
        by (cases "turn E (listeners p ! k) (shared p)")
      let ?p = "\<lparr>listeners = (listeners p)[k := tp], stderr = stderr p @ rs, shared = w1\<rparr>"
      have a: "i < length (listeners ?p)" "snd (listeners ?p ! i) = Ended r"
        and b: "listeners ?p ! i = listeners p ! i"
        using Cons.prems \<open>k \<noteq> i\<close> by simp_all
      have eq: "schedule E (k # xs) p = schedule E xs ?p" for xs
        using True tu by simp
      from Cons.IH[OF a] have "schedule E sched ?p = schedule E (filter (\<lambda>k. k \<noteq> i) sched) ?p"
        and "listeners (schedule E sched ?p) ! i = listeners p ! i"
        unfolding b by blast+
      then show ?thesis unfolding f eq by blast
    qed
  qed
qed

text \<open>A thread that takes all the turns runs \<open>start_forwarder\<close>.\<close>

lemma accept_loop_next:
  "accept_loop (Suc n) E l c d w =
     (case accept_loop (Suc 0) E l c d w of
        (Running, w1) \<Rightarrow> accept_loop n E l c d w1
      | (Finished r, w1) \<Rightarrow> (Finished r, w1))"
  by (simp add: Let_def split: prod.splits result.splits)

lemma start_forwarder_next:
  "start_forwarder n E a b c d w =
     (case start_forwarder 0 E a b c d w of
        (Running, w1) \<Rightarrow> accept_loop n E (now w) c d w1
      | (Finished r, w1) \<Rightarrow> (Finished r, w1))"
  by (simp add: start_forwarder_def socket_def setsockopt_def bind_def listen_def
        split: option.splits)

lemma schedule_alone_ended:
  assumes "i < length (listeners p)" "snd (listeners p ! i) = Ended r"
  shows "schedule E (replicate n i) p = p"
  using schedule_ended[OF assms, of E "replicate n i"] by simp

lemma schedule_alone_listening:
  "i < length (listeners p) \<Longrightarrow> listeners p ! i = (Forwarder a b c d, Listening l) \<Longrightarrow>
   shared (schedule E (replicate n i) p) = snd (accept_loop n E l c d (shared p))"
proof (induction n arbitrary: p)
  case 0
  then show ?case by simp
next
  case (Suc n)
  obtain st w1 where one: "accept_loop (Suc 0) E l c d (shared p) = (st, w1)"
    by (cases "accept_loop (Suc 0) E l c d (shared p)")
  show ?case
  proof (cases st)
    case Running
    let ?p = "\<lparr>listeners = (listeners p)[i := (Forwarder a b c d, Listening l)],
               stderr = stderr p @ [], shared = w1\<rparr>"
    have step: "schedule E (replicate (Suc n) i) p = schedule E (replicate n i) ?p"
      using Suc.prems one Running by (simp del: accept_loop.simps)
    have "shared (schedule E (replicate n i) ?p) = snd (accept_loop n E l c d (shared ?p))"
      using Suc.prems by (intro Suc.IH) simp_all
    with step one Running show ?thesis
      by (subst accept_loop_next) (simp del: accept_loop.simps)
  next
    case (Finished r)
    obtain tp rs where tu: "turn E (listeners p ! i) (shared p) = (tp, rs, w1)" "snd tp = Ended r"
      using Suc.prems one Finished by (cases r) (simp_all del: accept_loop.simps)
    let ?p = "\<lparr>listeners = (listeners p)[i := tp], stderr = stderr p @ rs, shared = w1\<rparr>"
    have step: "schedule E (replicate (Suc n) i) p = schedule E (replicate n i) ?p"
      using Suc.prems tu by (simp del: accept_loop.simps turn.simps)
    have "schedule E (replicate n i) ?p = ?p"
      using Suc.prems tu by (intro schedule_alone_ended[where r = r]) simp_all
    with step one Finished show ?thesis
      by (subst accept_loop_next) (simp del: accept_loop.simps)
  qed
qed

lemma schedule_alone:
  assumes "i < length (listeners p)" "listeners p ! i = (Forwarder a b c d, Not_started)"
  shows "shared (schedule E (replicate (Suc n) i) p) = snd (start_forwarder n E a b c d (shared p))"
proof -
  obtain st w1 where one: "start_forwarder 0 E a b c d (shared p) = (st, w1)"
    by (cases "start_forwarder 0 E a b c d (shared p)")
  show ?thesis
  proof (cases st)
    case Running
    let ?p = "\<lparr>listeners = (listeners p)[i := (Forwarder a b c d, Listening (now (shared p)))],
               stderr = stderr p @ [], shared = w1\<rparr>"
    have step: "schedule E (replicate (Suc n) i) p = schedule E (replicate n i) ?p"
      using assms one Running by simp
    have "shared (schedule E (replicate n i) ?p) =
          snd (accept_loop n E (now (shared p)) c d (shared ?p))"
      using assms by (intro schedule_alone_listening) simp_all
    with step one Running show ?thesis
      by (subst start_forwarder_next) simp
  next
    case (Finished r)
    obtain tp rs where tu: "turn E (listeners p ! i) (shared p) = (tp, rs, w1)" "snd tp = Ended r"
      using assms one Finished by (cases r) simp_all
    let ?p = "\<lparr>listeners = (listeners p)[i := tp], stderr = stderr p @ rs, shared = w1\<rparr>"
    have step: "schedule E (replicate (Suc n) i) p = schedule E (replicate n i) ?p"
      using assms tu by (simp del: turn.simps)
    have "schedule E (replicate n i) ?p = ?p"
      using assms tu by (intro schedule_alone_ended[where r = r]) simp_all
    with step one Finished show ?thesis
      by (subst start_forwarder_next) simp
  qed
qed

text \<open>Two runs of \<open>main\<close> and of the threads it has started.\<close>

lemma main_two_mappings:
  "main None (world0\<lparr>stdin := stdin_two_mappings\<rparr>) =
     (Running,
      \<lparr>stdin = [],
       stdout = [Banner 0, Banner 1, Banner 2, Banner 3, Banner 4, Banner 5, Prompt_remote,
                 Prompt_mapping, Added ''127.0.0.1'' 2222 ''203.0.113.5'' 22,
                 Prompt_mapping, Added ''127.0.0.1'' 8080 ''203.0.113.5'' 80,
                 Prompt_mapping, Starting_all, All_active],
       trace = [], closed = {},
       threads = [Forwarder ''127.0.0.1'' 2222 ''203.0.113.5'' 22,
                  Forwarder ''127.0.0.1'' 8080 ''203.0.113.5'' 80]\<rparr>)"
  by (simp add: main_def keep_alive_def input_loop.simps input_def banner_def print_def
       start_thread_def world0_def stdin_two_mappings_def Let_def text_defs)

lemma one_listening_eq:
  "one_listening =
     \<lparr>listeners = [(Forwarder ''127.0.0.1'' 2222 ''203.0.113.5'' 22, Not_started),
                   (Forwarder ''127.0.0.1'' 8080 ''203.0.113.5'' 80, Listening 0),
                   (Forwarder ''127.0.0.1'' 8443 ''203.0.113.5'' 443, Not_started)],
      stderr = [],
      shared = \<lparr>stdin = [], stdout = [Forwarding ''127.0.0.1'' 8080 ''203.0.113.5'' 80],
                trace = [(Socket AF_INET SOCK_STREAM, NewSock 0),
                         (SetSockOpt 0 SOL_SOCKET SO_REUSEADDR 1, Unit),
                         (Bind 0 ''127.0.0.1'' 8080, Unit),
                         (Listen 0 50, Unit)],
                closed = {},
                threads = [Forwarder ''127.0.0.1'' 2222 ''203.0.113.5'' 22,
                           Forwarder ''127.0.0.1'' 8080 ''203.0.113.5'' 80,
                           Forwarder ''127.0.0.1'' 8443 ''203.0.113.5'' 443]\<rparr>\<rparr>"
  by (simp add: one_listening_def spawn_def start_forwarder_def sock_defs world0_def
       env_bind_fails_late_def Let_def)

text \<open>
  C5 (bind failure), as the specification states it: the failure of \<^verbatim>\<open>bind\<close> is logged,
  a log being a line on standard output.  It does not hold.  Here \<open>main\<close> has read two
  mappings and started their threads, and the \<^verbatim>\<open>bind\<close> of the first raises.  The
  exception ends that thread and the interpreter reports it on standard error; standard
  output holds the lines of \<open>main\<close>, the start line of the second mapping and the
  connection it has accepted, and no line about the failure.
\<close>

theorem bind_failure_counterexample:
  "schedule env_bind_fails [0, 1, 1] (spawn (snd (main None (world0\<lparr>stdin := stdin_two_mappings\<rparr>)))) =
     \<lparr>listeners = [(Forwarder ''127.0.0.1'' 2222 ''203.0.113.5'' 22,
                     Ended (Raised (OSError ''EADDRINUSE''))),
                   (Forwarder ''127.0.0.1'' 8080 ''203.0.113.5'' 80, Listening 3)],
      stderr = [Exception_in_thread (Forwarder ''127.0.0.1'' 2222 ''203.0.113.5'' 22)
                  (OSError ''EADDRINUSE'')],
      shared =
        \<lparr>stdin = [],
         stdout = [Banner 0, Banner 1, Banner 2, Banner 3, Banner 4, Banner 5, Prompt_remote,
                   Prompt_mapping, Added ''127.0.0.1'' 2222 ''203.0.113.5'' 22,
                   Prompt_mapping, Added ''127.0.0.1'' 8080 ''203.0.113.5'' 80,
                   Prompt_mapping, Starting_all, All_active,
                   Forwarding ''127.0.0.1'' 8080 ''203.0.113.5'' 80,
                   Incoming (''198.51.100.7'', 40000)],
         trace = [(Socket AF_INET SOCK_STREAM, NewSock 0),
                  (SetSockOpt 0 SOL_SOCKET SO_REUSEADDR 1, Unit),
                  (Bind 0 ''127.0.0.1'' 2222, Error ''EADDRINUSE''),
                  (Socket AF_INET SOCK_STREAM, NewSock 3),
                  (SetSockOpt 3 SOL_SOCKET SO_REUSEADDR 1, Unit),
                  (Bind 3 ''127.0.0.1'' 8080, Unit),
                  (Listen 3 50, Unit),
                  (Accept 3, Accepted 7 (''198.51.100.7'', 40000)),
                  (CreateConnection ''203.0.113.5'' 80 10, NewSock 8)],
         closed = {},
         threads = [Forwarder ''127.0.0.1'' 2222 ''203.0.113.5'' 22,
                    Forwarder ''127.0.0.1'' 8080 ''203.0.113.5'' 80,
                    Pipe 7 8, Pipe 8 7]\<rparr>\<rparr>"
  unfolding main_two_mappings
  by (simp add: spawn_def start_forwarder_def sock_defs env_bind_fails_def Let_def)

text \<open>
  C5 as amended.  When the \<^verbatim>\<open>bind\<close> of a mapping raises, the program writes no line on
  standard output for it: the error leaves \<open>start_forwarder\<close>, whatever the number of
  iterations asked for, after one \<^verbatim>\<open>socket\<close>, one \<^verbatim>\<open>setsockopt\<close> and that one
  \<^verbatim>\<open>bind\<close>, and the only report is the one of the interpreter on standard error.  The
  thread has ended for good: in any schedule its later turns do nothing (no
  \<^verbatim>\<open>listen\<close>, no \<^verbatim>\<open>accept\<close>, no second \<^verbatim>\<open>bind\<close>), and the run is the run of the
  other threads alone.  Every other listener is unaffected: one that is listening accepts
  the next connection and starts its relay, one that has not started yet sets its
  listening socket up, whenever its own calls succeed.
\<close>

theorem bind_failure_abandons_mapping:
  assumes "i < length (listeners p)" "listeners p ! i = (Forwarder a b c d, Not_started)"
    and "fails E (now (shared p)) = None" "fails E (Suc (now (shared p))) = None"
        "fails E (Suc (Suc (now (shared p)))) = Some m"
  shows
   "let w1 = (shared p)\<lparr>trace := trace (shared p) @
                 [(Socket AF_INET SOCK_STREAM, NewSock (now (shared p))),
                  (SetSockOpt (now (shared p)) SOL_SOCKET SO_REUSEADDR 1, Unit),
                  (Bind (now (shared p)) a b, Error m)]\<rparr>;
        p1 = \<lparr>listeners = (listeners p)[i := (Forwarder a b c d, Ended (Raised (OSError m)))],
              stderr = stderr p @ [Exception_in_thread (Forwarder a b c d) (OSError m)],
              shared = w1\<rparr>
    in start_forwarder n E a b c d (shared p) = (Finished (Raised (OSError m)), w1) \<and>
       schedule E [i] p = p1 \<and>
       stdout (shared (schedule E [i] p)) = stdout (shared p) \<and>
       schedule E (i # sched) p = schedule E (filter (\<lambda>k. k \<noteq> i) sched) p1 \<and>
       listeners (schedule E (i # sched) p) ! i =
         (Forwarder a b c d, Ended (Raised (OSError m))) \<and>
       (\<forall>j a' b' c' d' l.
          j < length (listeners p) \<and> j \<noteq> i \<and>
          listeners p ! j = (Forwarder a' b' c' d', Listening l) \<and>
          fails E (now w1) = None \<and> fails E (Suc (now w1)) = None \<longrightarrow>
          schedule E [i, j] p =
            p1\<lparr>shared :=
                 \<lparr>stdin = stdin w1,
                  stdout = stdout w1 @ [Incoming (peer E (now w1))],
                  trace = trace w1 @ [(Accept l, Accepted (now w1) (peer E (now w1))),
                                      (CreateConnection c' d' 10, NewSock (Suc (now w1)))],
                  closed = closed w1,
                  threads = threads w1 @ [Pipe (now w1) (Suc (now w1)),
                                          Pipe (Suc (now w1)) (now w1)]\<rparr>\<rparr>) \<and>
       (\<forall>j a' b' c' d'.
          j < length (listeners p) \<and> j \<noteq> i \<and>
          listeners p ! j = (Forwarder a' b' c' d', Not_started) \<and>
          fails E (now w1) = None \<and> fails E (Suc (now w1)) = None \<and>
          fails E (Suc (Suc (now w1))) = None \<and> fails E (Suc (Suc (Suc (now w1)))) = None \<longrightarrow>
          schedule E [i, j] p =
            \<lparr>listeners = (listeners p1)[j := (Forwarder a' b' c' d', Listening (now w1))],
             stderr = stderr p1,
             shared =
                 \<lparr>stdin = stdin w1,
                  stdout = stdout w1 @ [Forwarding a' b' c' d'],
                  trace = trace w1 @ [(Socket AF_INET SOCK_STREAM, NewSock (now w1)),
                                      (SetSockOpt (now w1) SOL_SOCKET SO_REUSEADDR 1, Unit),
                                      (Bind (now w1) a' b', Unit),
                                      (Listen (now w1) 50, Unit)],
                  closed = closed w1,
                  threads = threads w1\<rparr>\<rparr>)"
proof -
  define w1 where "w1 = (shared p)\<lparr>trace := trace (shared p) @
                 [(Socket AF_INET SOCK_STREAM, NewSock (now (shared p))),
                  (SetSockOpt (now (shared p)) SOL_SOCKET SO_REUSEADDR 1, Unit),
                  (Bind (now (shared p)) a b, Error m)]\<rparr>"
  define p1 where "p1 = \<lparr>listeners = (listeners p)[i := (Forwarder a b c d, Ended (Raised (OSError m)))],
              stderr = stderr p @ [Exception_in_thread (Forwarder a b c d) (OSError m)],
              shared = w1\<rparr>"
  have sf: "start_forwarder n E a b c d (shared p) = (Finished (Raised (OSError m)), w1)"
    unfolding w1_def by (rule start_forwarder_bind_fails[OF assms(3-5)])
  have tu: "turn E (listeners p ! i) (shared p) =
      ((Forwarder a b c d, Ended (Raised (OSError m))),
       [Exception_in_thread (Forwarder a b c d) (OSError m)], w1)"
    unfolding w1_def assms(2) by (rule turn_bind_fails[OF assms(3-5)])
  have step: "schedule E (i # xs) p = schedule E xs p1" for xs
    using assms(1) tu by (simp add: p1_def)
  have one: "schedule E [i] p = p1"
    using step[of "[]"] by simp
  have out: "stdout (shared (schedule E [i] p)) = stdout (shared p)"
    unfolding one by (simp add: p1_def w1_def)
  have len: "i < length (listeners p1)" and dead: "snd (listeners p1 ! i) = Ended (Raised (OSError m))"
    and at: "listeners p1 ! i = (Forwarder a b c d, Ended (Raised (OSError m)))"
    using assms(1) by (simp_all add: p1_def)
  from schedule_ended[OF len dead, of E sched]
  have rest: "schedule E (i # sched) p = schedule E (filter (\<lambda>k. k \<noteq> i) sched) p1"
    and stay: "listeners (schedule E (i # sched) p) ! i =
         (Forwarder a b c d, Ended (Raised (OSError m)))"
    unfolding step at by blast+
  have acc: "schedule E [i, j] p =
            p1\<lparr>shared :=
                 \<lparr>stdin = stdin w1,
                  stdout = stdout w1 @ [Incoming (peer E (now w1))],
                  trace = trace w1 @ [(Accept l, Accepted (now w1) (peer E (now w1))),
                                      (CreateConnection c' d' 10, NewSock (Suc (now w1)))],
                  closed = closed w1,
                  threads = threads w1 @ [Pipe (now w1) (Suc (now w1)),
                                          Pipe (Suc (now w1)) (now w1)]\<rparr>\<rparr>"
    if j: "j < length (listeners p)" "j \<noteq> i"
          "listeners p ! j = (Forwarder a' b' c' d', Listening l)"
      and f: "fails E (now w1) = None" "fails E (Suc (now w1)) = None"
    for j a' b' c' d' l
  proof -
    have lj: "listeners p1 ! j = (Forwarder a' b' c' d', Listening l)" "j < length (listeners p1)"
      using j by (simp_all add: p1_def)
    have same: "(listeners p1)[j := (Forwarder a' b' c' d', Listening l)] = listeners p1"
      using lj(1) by (metis list_update_id)
    have sh: "shared p1 = w1" by (simp add: p1_def)
    let ?w = "\<lparr>stdin = stdin w1,
                  stdout = stdout w1 @ [Incoming (peer E (now w1))],
                  trace = trace w1 @ [(Accept l, Accepted (now w1) (peer E (now w1))),
                                      (CreateConnection c' d' 10, NewSock (Suc (now w1)))],
                  closed = closed w1,
                  threads = threads w1 @ [Pipe (now w1) (Suc (now w1)),
                                          Pipe (Suc (now w1)) (now w1)]\<rparr>"
    have "schedule E [j] p1 =
            \<lparr>listeners = (listeners p1)[j := (Forwarder a' b' c' d', Listening l)],
             stderr = stderr p1, shared = ?w\<rparr>"
      using lj(2) by (simp add: lj(1) sh turn_accepts[OF f] del: turn.simps)
    also have "\<dots> = \<lparr>listeners = listeners p1, stderr = stderr p1, shared = ?w\<rparr>"
      unfolding same ..
    also have "\<dots> = p1\<lparr>shared := ?w\<rparr>"
      by (cases p1) simp
    finally show ?thesis unfolding step .
  qed
  have opn: "schedule E [i, j] p =
            \<lparr>listeners = (listeners p1)[j := (Forwarder a' b' c' d', Listening (now w1))],
             stderr = stderr p1,
             shared =
                 \<lparr>stdin = stdin w1,
                  stdout = stdout w1 @ [Forwarding a' b' c' d'],
                  trace = trace w1 @ [(Socket AF_INET SOCK_STREAM, NewSock (now w1)),
                                      (SetSockOpt (now w1) SOL_SOCKET SO_REUSEADDR 1, Unit),
                                      (Bind (now w1) a' b', Unit),
                                      (Listen (now w1) 50, Unit)],
                  closed = closed w1,
                  threads = threads w1\<rparr>\<rparr>"
    if j: "j < length (listeners p)" "j \<noteq> i"
          "listeners p ! j = (Forwarder a' b' c' d', Not_started)"
      and f: "fails E (now w1) = None" "fails E (Suc (now w1)) = None"
             "fails E (Suc (Suc (now w1))) = None" "fails E (Suc (Suc (Suc (now w1)))) = None"
    for j a' b' c' d'
  proof -
    have lj: "listeners p1 ! j = (Forwarder a' b' c' d', Not_started)" "j < length (listeners p1)"
      using j by (simp_all add: p1_def)
    have sh: "shared p1 = w1" by (simp add: p1_def)
    have "schedule E [j] p1 =
            \<lparr>listeners = (listeners p1)[j := (Forwarder a' b' c' d', Listening (now w1))],
             stderr = stderr p1,
             shared =
                 \<lparr>stdin = stdin w1,
                  stdout = stdout w1 @ [Forwarding a' b' c' d'],
                  trace = trace w1 @ [(Socket AF_INET SOCK_STREAM, NewSock (now w1)),
                                      (SetSockOpt (now w1) SOL_SOCKET SO_REUSEADDR 1, Unit),
                                      (Bind (now w1) a' b', Unit),
                                      (Listen (now w1) 50, Unit)],
                  closed = closed w1,
                  threads = threads w1\<rparr>\<rparr>"
      using lj(2) by (simp add: lj(1) sh turn_opens[OF f] del: turn.simps)
    then show ?thesis unfolding step .
  qed
  from sf one out rest stay acc opn show ?thesis
    unfolding Let_def w1_def[symmetric] p1_def[symmetric] by blast
qed

theorem bind_failure_abandons_mapping_witness:
  "0 < length (listeners one_listening) \<and>
   listeners one_listening ! 0 = (Forwarder ''127.0.0.1'' 2222 ''203.0.113.5'' 22, Not_started) \<and>
   fails env_bind_fails_late (now (shared one_listening)) = None \<and>
   fails env_bind_fails_late (Suc (now (shared one_listening))) = None \<and>
   fails env_bind_fails_late (Suc (Suc (now (shared one_listening)))) = Some ''EADDRINUSE'' \<and>
   schedule env_bind_fails_late [0] one_listening =
     \<lparr>listeners = [(Forwarder ''127.0.0.1'' 2222 ''203.0.113.5'' 22,
                     Ended (Raised (OSError ''EADDRINUSE''))),
                   (Forwarder ''127.0.0.1'' 8080 ''203.0.113.5'' 80, Listening 0),
                   (Forwarder ''127.0.0.1'' 8443 ''203.0.113.5'' 443, Not_started)],
      stderr = [Exception_in_thread (Forwarder ''127.0.0.1'' 2222 ''203.0.113.5'' 22)
                  (OSError ''EADDRINUSE'')],
      shared = \<lparr>stdin = [], stdout = [Forwarding ''127.0.0.1'' 8080 ''203.0.113.5'' 80],
                trace = [(Socket AF_INET SOCK_STREAM, NewSock 0),
                         (SetSockOpt 0 SOL_SOCKET SO_REUSEADDR 1, Unit),
                         (Bind 0 ''127.0.0.1'' 8080, Unit),
                         (Listen 0 50, Unit),
                         (Socket AF_INET SOCK_STREAM, NewSock 4),
                         (SetSockOpt 4 SOL_SOCKET SO_REUSEADDR 1, Unit),
                         (Bind 4 ''127.0.0.1'' 2222, Error ''EADDRINUSE'')],
                closed = {},
                threads = [Forwarder ''127.0.0.1'' 2222 ''203.0.113.5'' 22,
                           Forwarder ''127.0.0.1'' 8080 ''203.0.113.5'' 80,
                           Forwarder ''127.0.0.1'' 8443 ''203.0.113.5'' 443]\<rparr>\<rparr> \<and>
   schedule env_bind_fails_late [0, 1] one_listening =
     \<lparr>listeners = [(Forwarder ''127.0.0.1'' 2222 ''203.0.113.5'' 22,
                     Ended (Raised (OSError ''EADDRINUSE''))),
                   (Forwarder ''127.0.0.1'' 8080 ''203.0.113.5'' 80, Listening 0),
                   (Forwarder ''127.0.0.1'' 8443 ''203.0.113.5'' 443, Not_started)],
      stderr = [Exception_in_thread (Forwarder ''127.0.0.1'' 2222 ''203.0.113.5'' 22)
                  (OSError ''EADDRINUSE'')],
      shared = \<lparr>stdin = [],
                stdout = [Forwarding ''127.0.0.1'' 8080 ''203.0.113.5'' 80,
                          Incoming (''198.51.100.7'', 40000)],
                trace = [(Socket AF_INET SOCK_STREAM, NewSock 0),
                         (SetSockOpt 0 SOL_SOCKET SO_REUSEADDR 1, Unit),
                         (Bind 0 ''127.0.0.1'' 8080, Unit),
                         (Listen 0 50, Unit),
                         (Socket AF_INET SOCK_STREAM, NewSock 4),
                         (SetSockOpt 4 SOL_SOCKET SO_REUSEADDR 1, Unit),
                         (Bind 4 ''127.0.0.1'' 2222, Error ''EADDRINUSE''),
                         (Accept 0, Accepted 7 (''198.51.100.7'', 40000)),
                         (CreateConnection ''203.0.113.5'' 80 10, NewSock 8)],
                closed = {},
                threads = [Forwarder ''127.0.0.1'' 2222 ''203.0.113.5'' 22,
                           Forwarder ''127.0.0.1'' 8080 ''203.0.113.5'' 80,
                           Forwarder ''127.0.0.1'' 8443 ''203.0.113.5'' 443,
                           Pipe 7 8, Pipe 8 7]\<rparr>\<rparr> \<and>
   schedule env_bind_fails_late [0, 1, 0, 1] one_listening =
     \<lparr>listeners = [(Forwarder ''127.0.0.1'' 2222 ''203.0.113.5'' 22,
                     Ended (Raised (OSError ''EADDRINUSE''))),
                   (Forwarder ''127.0.0.1'' 8080 ''203.0.113.5'' 80, Listening 0),
                   (Forwarder ''127.0.0.1'' 8443 ''203.0.113.5'' 443, Not_started)],
      stderr = [Exception_in_thread (Forwarder ''127.0.0.1'' 2222 ''203.0.113.5'' 22)
                  (OSError ''EADDRINUSE'')],
      shared = \<lparr>stdin = [],
                stdout = [Forwarding ''127.0.0.1'' 8080 ''203.0.113.5'' 80,
                          Incoming (''198.51.100.7'', 40000), Incoming (''198.51.100.7'', 40000)],
                trace = [(Socket AF_INET SOCK_STREAM, NewSock 0),
                         (SetSockOpt 0 SOL_SOCKET SO_REUSEADDR 1, Unit),
                         (Bind 0 ''127.0.0.1'' 8080, Unit),
                         (Listen 0 50, Unit),
                         (Socket AF_INET SOCK_STREAM, NewSock 4),
                         (SetSockOpt 4 SOL_SOCKET SO_REUSEADDR 1, Unit),
                         (Bind 4 ''127.0.0.1'' 2222, Error ''EADDRINUSE''),
                         (Accept 0, Accepted 7 (''198.51.100.7'', 40000)),
                         (CreateConnection ''203.0.113.5'' 80 10, NewSock 8),
                         (Accept 0, Accepted 9 (''198.51.100.7'', 40000)),
                         (CreateConnection ''203.0.113.5'' 80 10, NewSock 10)],
                closed = {},
                threads = [Forwarder ''127.0.0.1'' 2222 ''203.0.113.5'' 22,
                           Forwarder ''127.0.0.1'' 8080 ''203.0.113.5'' 80,
                           Forwarder ''127.0.0.1'' 8443 ''203.0.113.5'' 443,
                           Pipe 7 8, Pipe 8 7, Pipe 9 10, Pipe 10 9]\<rparr>\<rparr> \<and>
   schedule env_bind_fails_late [0, 2] one_listening =
     \<lparr>listeners = [(Forwarder ''127.0.0.1'' 2222 ''203.0.113.5'' 22,
                     Ended (Raised (OSError ''EADDRINUSE''))),
                   (Forwarder ''127.0.0.1'' 8080 ''203.0.113.5'' 80, Listening 0),
                   (Forwarder ''127.0.0.1'' 8443 ''203.0.113.5'' 443, Listening 7)],
      stderr = [Exception_in_thread (Forwarder ''127.0.0.1'' 2222 ''203.0.113.5'' 22)
                  (OSError ''EADDRINUSE'')],
      shared = \<lparr>stdin = [],
                stdout = [Forwarding ''127.0.0.1'' 8080 ''203.0.113.5'' 80,
                          Forwarding ''127.0.0.1'' 8443 ''203.0.113.5'' 443],
                trace = [(Socket AF_INET SOCK_STREAM, NewSock 0),
                         (SetSockOpt 0 SOL_SOCKET SO_REUSEADDR 1, Unit),
                         (Bind 0 ''127.0.0.1'' 8080, Unit),
                         (Listen 0 50, Unit),
                         (Socket AF_INET SOCK_STREAM, NewSock 4),
                         (SetSockOpt 4 SOL_SOCKET SO_REUSEADDR 1, Unit),
                         (Bind 4 ''127.0.0.1'' 2222, Error ''EADDRINUSE''),
                         (Socket AF_INET SOCK_STREAM, NewSock 7),
                         (SetSockOpt 7 SOL_SOCKET SO_REUSEADDR 1, Unit),
                         (Bind 7 ''127.0.0.1'' 8443, Unit),
                         (Listen 7 50, Unit)],
                closed = {},
                threads = [Forwarder ''127.0.0.1'' 2222 ''203.0.113.5'' 22,
                           Forwarder ''127.0.0.1'' 8080 ''203.0.113.5'' 80,
                           Forwarder ''127.0.0.1'' 8443 ''203.0.113.5'' 443]\<rparr>\<rparr>"
proof -
  let ?E = env_bind_fails_late
  let ?w1 = "(shared one_listening)\<lparr>trace := trace (shared one_listening) @
                 [(Socket AF_INET SOCK_STREAM, NewSock (now (shared one_listening))),
                  (SetSockOpt (now (shared one_listening)) SOL_SOCKET SO_REUSEADDR 1, Unit),
                  (Bind (now (shared one_listening)) ''127.0.0.1'' 2222, Error ''EADDRINUSE'')]\<rparr>"
  let ?p1 = "\<lparr>listeners = (listeners one_listening)[0 :=
                 (Forwarder ''127.0.0.1'' 2222 ''203.0.113.5'' 22, Ended (Raised (OSError ''EADDRINUSE'')))],
              stderr = stderr one_listening @
                 [Exception_in_thread (Forwarder ''127.0.0.1'' 2222 ''203.0.113.5'' 22) (OSError ''EADDRINUSE'')],
              shared = ?w1\<rparr>"
  have h: "0 < length (listeners one_listening)"
     "listeners one_listening ! 0 = (Forwarder ''127.0.0.1'' 2222 ''203.0.113.5'' 22, Not_started)"
     "fails ?E (now (shared one_listening)) = None"
     "fails ?E (Suc (now (shared one_listening))) = None"
     "fails ?E (Suc (Suc (now (shared one_listening)))) = Some ''EADDRINUSE''"
    by (simp_all add: one_listening_eq env_bind_fails_late_def now_def)
  note th = bind_failure_abandons_mapping[OF h, of 0 "[1, 0, 1]", unfolded Let_def]
  from th have r1: "schedule ?E [0] one_listening = ?p1" by blast
  from th have r2: "schedule ?E (0 # [1, 0, 1]) one_listening =
      schedule ?E (filter (\<lambda>k. k \<noteq> 0) [1, 0, 1]) ?p1" by blast
  from th have r3: "\<forall>j a' b' c' d' l.
          j < length (listeners one_listening) \<and> j \<noteq> 0 \<and>
          listeners one_listening ! j = (Forwarder a' b' c' d', Listening l) \<and>
          fails ?E (now ?w1) = None \<and> fails ?E (Suc (now ?w1)) = None \<longrightarrow>
          schedule ?E [0, j] one_listening =
            ?p1\<lparr>shared :=
                 \<lparr>stdin = stdin ?w1,
                  stdout = stdout ?w1 @ [Incoming (peer ?E (now ?w1))],
                  trace = trace ?w1 @ [(Accept l, Accepted (now ?w1) (peer ?E (now ?w1))),
                                      (CreateConnection c' d' 10, NewSock (Suc (now ?w1)))],
                  closed = closed ?w1,
                  threads = threads ?w1 @ [Pipe (now ?w1) (Suc (now ?w1)),
                                          Pipe (Suc (now ?w1)) (now ?w1)]\<rparr>\<rparr>" by blast
  from th have r4: "\<forall>j a' b' c' d'.
          j < length (listeners one_listening) \<and> j \<noteq> 0 \<and>
          listeners one_listening ! j = (Forwarder a' b' c' d', Not_started) \<and>
          fails ?E (now ?w1) = None \<and> fails ?E (Suc (now ?w1)) = None \<and>
          fails ?E (Suc (Suc (now ?w1))) = None \<and> fails ?E (Suc (Suc (Suc (now ?w1)))) = None \<longrightarrow>
          schedule ?E [0, j] one_listening =
            \<lparr>listeners = (listeners ?p1)[j := (Forwarder a' b' c' d', Listening (now ?w1))],
             stderr = stderr ?p1,
             shared =
                 \<lparr>stdin = stdin ?w1,
                  stdout = stdout ?w1 @ [Forwarding a' b' c' d'],
                  trace = trace ?w1 @ [(Socket AF_INET SOCK_STREAM, NewSock (now ?w1)),
                                      (SetSockOpt (now ?w1) SOL_SOCKET SO_REUSEADDR 1, Unit),
                                      (Bind (now ?w1) a' b', Unit),
                                      (Listen (now ?w1) 50, Unit)],
                  closed = closed ?w1,
                  threads = threads ?w1\<rparr>\<rparr>" by blast
  have a: "schedule ?E [0] one_listening =
     \<lparr>listeners = [(Forwarder ''127.0.0.1'' 2222 ''203.0.113.5'' 22,
                     Ended (Raised (OSError ''EADDRINUSE''))),
                   (Forwarder ''127.0.0.1'' 8080 ''203.0.113.5'' 80, Listening 0),
                   (Forwarder ''127.0.0.1'' 8443 ''203.0.113.5'' 443, Not_started)],
      stderr = [Exception_in_thread (Forwarder ''127.0.0.1'' 2222 ''203.0.113.5'' 22)
                  (OSError ''EADDRINUSE'')],
      shared = \<lparr>stdin = [], stdout = [Forwarding ''127.0.0.1'' 8080 ''203.0.113.5'' 80],
                trace = [(Socket AF_INET SOCK_STREAM, NewSock 0),
                         (SetSockOpt 0 SOL_SOCKET SO_REUSEADDR 1, Unit),
                         (Bind 0 ''127.0.0.1'' 8080, Unit),
                         (Listen 0 50, Unit),
                         (Socket AF_INET SOCK_STREAM, NewSock 4),
                         (SetSockOpt 4 SOL_SOCKET SO_REUSEADDR 1, Unit),
                         (Bind 4 ''127.0.0.1'' 2222, Error ''EADDRINUSE'')],
                closed = {},
                threads = [Forwarder ''127.0.0.1'' 2222 ''203.0.113.5'' 22,
                           Forwarder ''127.0.0.1'' 8080 ''203.0.113.5'' 80,
                           Forwarder ''127.0.0.1'' 8443 ''203.0.113.5'' 443]\<rparr>\<rparr>"
    unfolding r1 by (simp add: one_listening_eq now_def)
  have b: "schedule ?E [0, 1, 0, 1] one_listening =
     \<lparr>listeners = [(Forwarder ''127.0.0.1'' 2222 ''203.0.113.5'' 22,
                     Ended (Raised (OSError ''EADDRINUSE''))),
                   (Forwarder ''127.0.0.1'' 8080 ''203.0.113.5'' 80, Listening 0),
                   (Forwarder ''127.0.0.1'' 8443 ''203.0.113.5'' 443, Not_started)],
      stderr = [Exception_in_thread (Forwarder ''127.0.0.1'' 2222 ''203.0.113.5'' 22)
                  (OSError ''EADDRINUSE'')],
      shared = \<lparr>stdin = [],
                stdout = [Forwarding ''127.0.0.1'' 8080 ''203.0.113.5'' 80,
                          Incoming (''198.51.100.7'', 40000), Incoming (''198.51.100.7'', 40000)],
                trace = [(Socket AF_INET SOCK_STREAM, NewSock 0),
                         (SetSockOpt 0 SOL_SOCKET SO_REUSEADDR 1, Unit),
                         (Bind 0 ''127.0.0.1'' 8080, Unit),
                         (Listen 0 50, Unit),
                         (Socket AF_INET SOCK_STREAM, NewSock 4),
                         (SetSockOpt 4 SOL_SOCKET SO_REUSEADDR 1, Unit),
                         (Bind 4 ''127.0.0.1'' 2222, Error ''EADDRINUSE''),
                         (Accept 0, Accepted 7 (''198.51.100.7'', 40000)),
                         (CreateConnection ''203.0.113.5'' 80 10, NewSock 8),
                         (Accept 0, Accepted 9 (''198.51.100.7'', 40000)),
                         (CreateConnection ''203.0.113.5'' 80 10, NewSock 10)],
                closed = {},
                threads = [Forwarder ''127.0.0.1'' 2222 ''203.0.113.5'' 22,
                           Forwarder ''127.0.0.1'' 8080 ''203.0.113.5'' 80,
                           Forwarder ''127.0.0.1'' 8443 ''203.0.113.5'' 443,
                           Pipe 7 8, Pipe 8 7, Pipe 9 10, Pipe 10 9]\<rparr>\<rparr>"
    unfolding r2
    by (simp add: one_listening_eq sock_defs env_bind_fails_late_def Let_def)
  have c: "schedule ?E [0, 2] one_listening =
     \<lparr>listeners = [(Forwarder ''127.0.0.1'' 2222 ''203.0.113.5'' 22,
                     Ended (Raised (OSError ''EADDRINUSE''))),
                   (Forwarder ''127.0.0.1'' 8080 ''203.0.113.5'' 80, Listening 0),
                   (Forwarder ''127.0.0.1'' 8443 ''203.0.113.5'' 443, Listening 7)],
      stderr = [Exception_in_thread (Forwarder ''127.0.0.1'' 2222 ''203.0.113.5'' 22)
                  (OSError ''EADDRINUSE'')],
      shared = \<lparr>stdin = [],
                stdout = [Forwarding ''127.0.0.1'' 8080 ''203.0.113.5'' 80,
                          Forwarding ''127.0.0.1'' 8443 ''203.0.113.5'' 443],
                trace = [(Socket AF_INET SOCK_STREAM, NewSock 0),
                         (SetSockOpt 0 SOL_SOCKET SO_REUSEADDR 1, Unit),
                         (Bind 0 ''127.0.0.1'' 8080, Unit),
                         (Listen 0 50, Unit),
                         (Socket AF_INET SOCK_STREAM, NewSock 4),
                         (SetSockOpt 4 SOL_SOCKET SO_REUSEADDR 1, Unit),
                         (Bind 4 ''127.0.0.1'' 2222, Error ''EADDRINUSE''),
                         (Socket AF_INET SOCK_STREAM, NewSock 7),
                         (SetSockOpt 7 SOL_SOCKET SO_REUSEADDR 1, Unit),
                         (Bind 7 ''127.0.0.1'' 8443, Unit),
                         (Listen 7 50, Unit)],
                closed = {},
                threads = [Forwarder ''127.0.0.1'' 2222 ''203.0.113.5'' 22,
                           Forwarder ''127.0.0.1'' 8080 ''203.0.113.5'' 80,
                           Forwarder ''127.0.0.1'' 8443 ''203.0.113.5'' 443]\<rparr>\<rparr>"
  proof -
    have pre: "2 < length (listeners one_listening) \<and> (2::nat) \<noteq> 0 \<and>
          listeners one_listening ! 2 = (Forwarder ''127.0.0.1'' 8443 ''203.0.113.5'' 443, Not_started) \<and>
          fails ?E (now ?w1) = None \<and> fails ?E (Suc (now ?w1)) = None \<and>
          fails ?E (Suc (Suc (now ?w1))) = None \<and> fails ?E (Suc (Suc (Suc (now ?w1)))) = None"
      by (simp add: one_listening_eq env_bind_fails_late_def now_def)
    from r4[rule_format, OF pre] show ?thesis
      by (simp add: one_listening_eq now_def)
  qed
  have d: "schedule ?E [0, 1] one_listening =
     \<lparr>listeners = [(Forwarder ''127.0.0.1'' 2222 ''203.0.113.5'' 22,
                     Ended (Raised (OSError ''EADDRINUSE''))),
                   (Forwarder ''127.0.0.1'' 8080 ''203.0.113.5'' 80, Listening 0),
                   (Forwarder ''127.0.0.1'' 8443 ''203.0.113.5'' 443, Not_started)],
      stderr = [Exception_in_thread (Forwarder ''127.0.0.1'' 2222 ''203.0.113.5'' 22)
                  (OSError ''EADDRINUSE'')],
      shared = \<lparr>stdin = [],
                stdout = [Forwarding ''127.0.0.1'' 8080 ''203.0.113.5'' 80,
                          Incoming (''198.51.100.7'', 40000)],
                trace = [(Socket AF_INET SOCK_STREAM, NewSock 0),
                         (SetSockOpt 0 SOL_SOCKET SO_REUSEADDR 1, Unit),
                         (Bind 0 ''127.0.0.1'' 8080, Unit),
                         (Listen 0 50, Unit),
                         (Socket AF_INET SOCK_STREAM, NewSock 4),
                         (SetSockOpt 4 SOL_SOCKET SO_REUSEADDR 1, Unit),
                         (Bind 4 ''127.0.0.1'' 2222, Error ''EADDRINUSE''),
                         (Accept 0, Accepted 7 (''198.51.100.7'', 40000)),
                         (CreateConnection ''203.0.113.5'' 80 10, NewSock 8)],
                closed = {},
                threads = [Forwarder ''127.0.0.1'' 2222 ''203.0.113.5'' 22,
                           Forwarder ''127.0.0.1'' 8080 ''203.0.113.5'' 80,
                           Forwarder ''127.0.0.1'' 8443 ''203.0.113.5'' 443,
                           Pipe 7 8, Pipe 8 7]\<rparr>\<rparr>"
  proof -
    have pre: "1 < length (listeners one_listening) \<and> (1::nat) \<noteq> 0 \<and>
          listeners one_listening ! 1 = (Forwarder ''127.0.0.1'' 8080 ''203.0.113.5'' 80, Listening 0) \<and>
          fails ?E (now ?w1) = None \<and> fails ?E (Suc (now ?w1)) = None"
      by (simp add: one_listening_eq env_bind_fails_late_def now_def)
    from r3[rule_format, OF pre] show ?thesis
      by (simp add: one_listening_eq now_def env_bind_fails_late_def)
  qed
  show ?thesis
    apply (intro conjI)
            apply (rule h)+
       apply (rule a)
      apply (rule d)
     apply (rule b)
    apply (rule c)
    done
qed

subsection \<open>Bind configuration\<close>

text \<open>
  C9 (bind configuration).  For a mapping whose set-up succeeds, the calls of
  \<open>start_forwarder\<close> begin with one \<^verbatim>\<open>socket(AF_INET, SOCK_STREAM)\<close>, \<^verbatim>\<open>SO_REUSEADDR\<close> set
  to 1 on it, one \<^verbatim>\<open>bind\<close> of it to the local address and port of the rule and one
  \<^verbatim>\<open>listen\<close> with a backlog of 50; every later call, so every \<^verbatim>\<open>accept\<close>, comes after
  them, and none of the later calls is a set-up call.
\<close>

theorem start_forwarder_binds_once:
  assumes "fails E (now w) = None" "fails E (Suc (now w)) = None"
          "fails E (Suc (Suc (now w))) = None" "fails E (Suc (Suc (Suc (now w)))) = None"
  shows "\<exists>rest. trace (snd (start_forwarder n E local_ip local_port remote_ip remote_port w)) =
            trace w @ [(Socket AF_INET SOCK_STREAM, NewSock (now w)),
                       (SetSockOpt (now w) SOL_SOCKET SO_REUSEADDR 1, Unit),
                       (Bind (now w) local_ip local_port, Unit),
                       (Listen (now w) 50, Unit)] @ rest \<and>
            (\<forall>x \<in> set rest. \<not> is_setup_call (fst x))"
proof -
  let ?opening = "[(Socket AF_INET SOCK_STREAM, NewSock (now w)),
                 (SetSockOpt (now w) SOL_SOCKET SO_REUSEADDR 1, Unit),
                 (Bind (now w) local_ip local_port, Unit),
                 (Listen (now w) 50, Unit)]"
  let ?w5 = "\<lparr>stdin = stdin w,
             stdout = stdout w @ [Forwarding local_ip local_port remote_ip remote_port],
             trace = trace w @ ?opening, closed = closed w, threads = threads w\<rparr>"
  have eq: "start_forwarder n E local_ip local_port remote_ip remote_port w =
            accept_loop n E (now w) remote_ip remote_port ?w5"
    using assms by (cases w) (simp add: start_forwarder_def sock_defs)
  from accept_loop_calls[of n E "now w" remote_ip remote_port ?w5] obtain rest where
    "trace (snd (accept_loop n E (now w) remote_ip remote_port ?w5)) = trace ?w5 @ rest"
    "\<forall>x \<in> set rest. \<not> is_setup_call (fst x)" by blast
  with eq show ?thesis by auto
qed

theorem start_forwarder_binds_once_witness:
  "fails env_quiet (now world0) = None \<and> fails env_quiet (Suc (now world0)) = None \<and>
   fails env_quiet (Suc (Suc (now world0))) = None \<and>
   fails env_quiet (Suc (Suc (Suc (now world0)))) = None \<and>
   (\<exists>rest. trace (snd (start_forwarder (Suc (Suc 0)) env_quiet ''127.0.0.1'' 2222 ''203.0.113.5'' 22 world0)) =
      [(Socket AF_INET SOCK_STREAM, NewSock 0),
       (SetSockOpt 0 SOL_SOCKET SO_REUSEADDR 1, Unit),
       (Bind 0 ''127.0.0.1'' 2222, Unit),
       (Listen 0 50, Unit)] @ rest \<and>
      rest = [(Accept 0, Accepted 4 (''198.51.100.7'', 40000)),
              (CreateConnection ''203.0.113.5'' 22 10, NewSock 5),
              (Accept 0, Accepted 6 (''198.51.100.7'', 40000)),
              (CreateConnection ''203.0.113.5'' 22 10, NewSock 7)])"
proof -
  have h: "fails env_quiet (now world0) = None" "fails env_quiet (Suc (now world0)) = None"
    "fails env_quiet (Suc (Suc (now world0))) = None"
    "fails env_quiet (Suc (Suc (Suc (now world0)))) = None"
    by (simp_all add: env_quiet_def)
  from start_forwarder_binds_once[OF h, of "Suc (Suc 0)" "''127.0.0.1''" 2222 "''203.0.113.5''" 22]
  obtain rest where "trace (snd (start_forwarder (Suc (Suc 0)) env_quiet ''127.0.0.1'' 2222 ''203.0.113.5'' 22 world0)) =
      trace world0 @ [(Socket AF_INET SOCK_STREAM, NewSock (now world0)),
       (SetSockOpt (now world0) SOL_SOCKET SO_REUSEADDR 1, Unit),
       (Bind (now world0) ''127.0.0.1'' 2222, Unit),
       (Listen (now world0) 50, Unit)] @ rest" by blast
  then have "rest = [(Accept 0, Accepted 4 (''198.51.100.7'', 40000)),
              (CreateConnection ''203.0.113.5'' 22 10, NewSock 5),
              (Accept 0, Accepted 6 (''198.51.100.7'', 40000)),
              (CreateConnection ''203.0.113.5'' 22 10, NewSock 7)]"
    unfolding sf_quiet by (simp add: world0_def now_def)
  with h show ?thesis unfolding sf_quiet by simp
qed

section \<open>Claims about main\<close>

lemma input_loop_keeps_sockets:
  "trace (snd (input_loop remote_ip mappings w)) = trace w \<and>
   threads (snd (input_loop remote_ip mappings w)) = threads w \<and>
   closed (snd (input_loop remote_ip mappings w)) = closed w"
proof (induction remote_ip mappings w rule: input_loop.induct)
  case (1 remote_ip mappings w)
  show ?case
  proof (cases "stdin w")
    case Nil
    then show ?thesis
      by (subst (1 2 3) input_loop.simps) (simp add: input_def print_def)
  next
    case (Cons line rest)
    let ?w1 = "print Prompt_mapping (w\<lparr>stdin := rest\<rparr>)"
    have i: "input Prompt_mapping w = (Returned line, ?w1)"
      using Cons by (simp add: input_def)
    have k: "trace ?w1 = trace w" "threads ?w1 = threads w" "closed ?w1 = closed w"
      by (simp_all add: print_def)
    note IH = "1.IH"[OF i[symmetric] refl refl]
    show ?thesis
      using IH k
      apply (subst (1 2 3) input_loop.simps)
      apply (simp add: i Let_def print_def split: option.splits)
      done
  qed
qed

lemma banner_keeps:
  "stdin (banner w) = stdin w \<and> trace (banner w) = trace w \<and>
   threads (banner w) = threads w \<and> closed (banner w) = closed w \<and>
   stdout (banner w) = stdout w @ [Banner 0, Banner 1, Banner 2, Banner 3, Banner 4, Banner 5]"
  by (simp add: banner_def print_def)

lemma input_keeps:
  "trace (snd (input p w)) = trace w \<and> threads (snd (input p w)) = threads w \<and>
   closed (snd (input p w)) = closed w"
  by (simp add: input_def print_def split: list.splits)

text \<open>\<^verbatim>\<open>int\<close> refuses a literal of more than 4300 digits, so a line with such a port is
  answered by the message on ports; and it does not skip the separators U+001C to U+001F.\<close>

lemma filter_isdigit_dropWhile:
  "filter isdigit (dropWhile int_space s) = filter isdigit s"
  by (induction s) (auto simp: isdigit_def int_space_def)

lemma filter_isdigit_strip:
  "filter isdigit (rev (dropWhile int_space (rev (dropWhile int_space s)))) = filter isdigit s"
  by (simp add: rev_filter[symmetric] filter_isdigit_dropWhile)

lemma py_int_digit_limit:
  assumes "int_max_str_digits < length (filter isdigit s)"
  shows "py_int s = None"
proof -
  define t where "t = rev (dropWhile int_space (rev (dropWhile int_space s)))"
  have ft: "length (filter isdigit t) = length (filter isdigit s)"
    unfolding t_def by (simp only: filter_isdigit_strip)
  have "py_int s =
     (case t of
        [] \<Rightarrow> None
      | c # cs \<Rightarrow>
          if int_max_str_digits < length (filter isdigit (c # cs)) then None
          else if c = CHR ''-'' then map_option (\<lambda>n. - int n) (int_digits True 0 cs)
          else if c = CHR ''+'' then map_option int (int_digits True 0 cs)
          else map_option int (int_digits True 0 (c # cs)))"
    unfolding py_int_def t_def ..
  then show ?thesis
    using assms ft by (cases t) (simp_all del: filter.simps)
qed

lemma py_int_long_port:
  "py_int (replicate 4301 (CHR ''7'')) = None"
  by (rule py_int_digit_limit) (simp add: isdigit_def int_max_str_digits_def)

lemma py_int_separators:
  "py_int [CHR 0x1C, CHR ''5''] = None" "py_int [CHR 0xA0, CHR ''5'', CHR 0x0C] = Some 5"
  by (simp_all add: text_defs)

lemma split_from_token:
  "\<forall>c \<in> set tok. \<not> isspace c \<Longrightarrow> split_from cur tok = (if cur @ tok = [] then [] else [cur @ tok])"
  by (induction tok arbitrary: cur) auto

lemma long_port_is_rejected:
  assumes "stdin w = (''127.0.0.1 2222 '' @ replicate 4301 (CHR ''7'')) # rest"
  shows "input_loop remote_ip mappings w =
           input_loop remote_ip mappings
             (w\<lparr>stdin := rest, stdout := stdout w @ [Prompt_mapping, Ports_must_be_integers]\<rparr>)"
proof -
  define port where "port = replicate 4301 (CHR ''7'')"
  define line where "line = ''127.0.0.1 2222 '' @ port"
  have ns: "\<forall>c \<in> set port. \<not> isspace c" by (simp add: port_def isspace_def)
  have strip: "str_strip line = line"
    by (simp add: line_def port_def str_strip_def isspace_def dropWhile_append3)
  have pne: "port \<noteq> []" by (simp add: port_def)
  have split: "str_split line = [''127.0.0.1'', ''2222'', port]"
    by (simp add: line_def str_split_def isspace_def split_from_token[OF ns] pne)
  have ne: "line \<noteq> []" by (simp add: line_def)
  have p1: "py_int ''2222'' = Some 2222" by (simp add: text_defs)
  have p2: "py_int port = None" unfolding port_def by (rule py_int_long_port)
  have i: "stdin w = line # rest" using assms by (simp add: line_def port_def)
  show ?thesis
    by (subst input_loop.simps)
       (simp add: input_def i print_def Let_def strip split ne p1 p2)
qed

text \<open>
  C8 (malformed entries).  One turn of the input loop on the line read.  A line that is
  empty once stripped ends the collection with the mappings as they are.  A line whose
  number of tokens is not three is answered by the format message, and a line of three
  tokens with a port that \<^verbatim>\<open>int\<close> refuses (\<open>py_int\<close> gives \<open>None\<close>: not a decimal
  literal, or one of more than 4300 digits) by the message on ports; in both cases the loop
  goes on with the same mappings, so no rule is made and the prompt comes again.  A line of
  three tokens with two integer ports adds exactly one rule, at the end.
\<close>

theorem malformed_entries_are_rejected:
  assumes "stdin w = line # rest"
  shows
   "(str_strip line = [] \<longrightarrow>
       input_loop remote_ip mappings w =
         (Returned mappings, w\<lparr>stdin := rest, stdout := stdout w @ [Prompt_mapping]\<rparr>)) \<and>
    (str_strip line \<noteq> [] \<and> length (str_split (str_strip line)) \<noteq> 3 \<longrightarrow>
       input_loop remote_ip mappings w =
         input_loop remote_ip mappings
           (w\<lparr>stdin := rest, stdout := stdout w @ [Prompt_mapping, Format_must_be]\<rparr>)) \<and>
    (str_strip line \<noteq> [] \<and> length (str_split (str_strip line)) = 3 \<and>
       (py_int (str_split (str_strip line) ! 1) = None \<or>
        py_int (str_split (str_strip line) ! 2) = None) \<longrightarrow>
       input_loop remote_ip mappings w =
         input_loop remote_ip mappings
           (w\<lparr>stdin := rest, stdout := stdout w @ [Prompt_mapping, Ports_must_be_integers]\<rparr>)) \<and>
    (str_strip line \<noteq> [] \<and> length (str_split (str_strip line)) = 3 \<and>
       py_int (str_split (str_strip line) ! 1) = Some local_port \<and>
       py_int (str_split (str_strip line) ! 2) = Some remote_port \<longrightarrow>
       input_loop remote_ip mappings w =
         input_loop remote_ip
           (mappings @ [(str_split (str_strip line) ! 0, local_port, remote_ip, remote_port)])
           (w\<lparr>stdin := rest,
              stdout := stdout w @ [Prompt_mapping,
                Added (str_split (str_strip line) ! 0) local_port remote_ip remote_port]\<rparr>))"
proof -
  have i: "input Prompt_mapping w =
      (Returned line, w\<lparr>stdin := rest, stdout := stdout w @ [Prompt_mapping]\<rparr>)"
    using assms by (simp add: input_def print_def)
  have a: "input_loop remote_ip mappings w =
         (Returned mappings, w\<lparr>stdin := rest, stdout := stdout w @ [Prompt_mapping]\<rparr>)"
    if "str_strip line = []"
    using that by (subst input_loop.simps) (simp add: i)
  have b: "input_loop remote_ip mappings w =
         input_loop remote_ip mappings
           (w\<lparr>stdin := rest, stdout := stdout w @ [Prompt_mapping, Format_must_be]\<rparr>)"
    if "str_strip line \<noteq> []" "length (str_split (str_strip line)) \<noteq> 3"
    using that by (subst input_loop.simps) (simp add: i print_def)
  have c: "input_loop remote_ip mappings w =
         input_loop remote_ip mappings
           (w\<lparr>stdin := rest, stdout := stdout w @ [Prompt_mapping, Ports_must_be_integers]\<rparr>)"
    if "str_strip line \<noteq> []" "length (str_split (str_strip line)) = 3"
       "py_int (str_split (str_strip line) ! 1) = None \<or>
        py_int (str_split (str_strip line) ! 2) = None"
    using that by (subst input_loop.simps) (auto simp: i print_def Let_def split: option.splits)
  have d: "input_loop remote_ip mappings w =
         input_loop remote_ip
           (mappings @ [(str_split (str_strip line) ! 0, local_port, remote_ip, remote_port)])
           (w\<lparr>stdin := rest,
              stdout := stdout w @ [Prompt_mapping,
                Added (str_split (str_strip line) ! 0) local_port remote_ip remote_port]\<rparr>)"
    if "str_strip line \<noteq> []" "length (str_split (str_strip line)) = 3"
       "py_int (str_split (str_strip line) ! 1) = Some local_port"
       "py_int (str_split (str_strip line) ! 2) = Some remote_port"
    using that by (subst input_loop.simps) (simp add: i print_def Let_def)
  from a b c d show ?thesis by blast
qed

theorem malformed_entries_are_rejected_witness:
  "input_loop ''203.0.113.5'' []
     (world0\<lparr>stdin := [''127.0.0.1 abc 22'', ''127.0.0.1 2222'', ''127.0.0.1 2222 22'', '''']\<rparr>) =
   (Returned [(''127.0.0.1'', 2222, ''203.0.113.5'', 22)],
    world0\<lparr>stdout := [Prompt_mapping, Ports_must_be_integers, Prompt_mapping, Format_must_be,
                        Prompt_mapping, Added ''127.0.0.1'' 2222 ''203.0.113.5'' 22,
                        Prompt_mapping]\<rparr>)"
proof -
  let ?rip = "''203.0.113.5''"
  let ?w0 = "world0\<lparr>stdin := [''127.0.0.1 abc 22'', ''127.0.0.1 2222'', ''127.0.0.1 2222 22'', '''']\<rparr>"
  let ?w1 = "world0\<lparr>stdin := [''127.0.0.1 2222'', ''127.0.0.1 2222 22'', ''''],
                    stdout := [Prompt_mapping, Ports_must_be_integers]\<rparr>"
  let ?w2 = "world0\<lparr>stdin := [''127.0.0.1 2222 22'', ''''],
                    stdout := [Prompt_mapping, Ports_must_be_integers, Prompt_mapping, Format_must_be]\<rparr>"
  let ?w3 = "world0\<lparr>stdin := [''''],
                    stdout := [Prompt_mapping, Ports_must_be_integers, Prompt_mapping, Format_must_be,
                               Prompt_mapping, Added ''127.0.0.1'' 2222 ''203.0.113.5'' 22]\<rparr>"
  have s1: "input_loop ?rip [] ?w0 = input_loop ?rip [] ?w1"
    using malformed_entries_are_rejected[where w = ?w0 and line = "''127.0.0.1 abc 22''"
        and rest = "[''127.0.0.1 2222'', ''127.0.0.1 2222 22'', '''']"
        and remote_ip = ?rip and mappings = "[]"]
    by (simp add: world0_def text_defs)
  have s2: "input_loop ?rip [] ?w1 = input_loop ?rip [] ?w2"
    using malformed_entries_are_rejected[where w = ?w1 and line = "''127.0.0.1 2222''"
        and rest = "[''127.0.0.1 2222 22'', '''']"
        and remote_ip = ?rip and mappings = "[]"]
    by (simp add: world0_def text_defs)
  have s3: "input_loop ?rip [] ?w2 =
        input_loop ?rip [(''127.0.0.1'', 2222, ''203.0.113.5'', 22)] ?w3"
    using malformed_entries_are_rejected[where w = ?w2 and line = "''127.0.0.1 2222 22''"
        and rest = "['''']" and remote_ip = ?rip and mappings = "[]"
        and local_port = 2222 and remote_port = 22]
    by (simp add: world0_def text_defs)
  have s4: "input_loop ?rip [(''127.0.0.1'', 2222, ''203.0.113.5'', 22)] ?w3 =
      (Returned [(''127.0.0.1'', 2222, ''203.0.113.5'', 22)],
       world0\<lparr>stdout := [Prompt_mapping, Ports_must_be_integers, Prompt_mapping, Format_must_be,
                        Prompt_mapping, Added ''127.0.0.1'' 2222 ''203.0.113.5'' 22,
                        Prompt_mapping]\<rparr>)"
    using malformed_entries_are_rejected[where w = ?w3 and line = "''''"
        and rest = "[]" and remote_ip = ?rip
        and mappings = "[(''127.0.0.1'', 2222, ''203.0.113.5'', 22)]"]
    by (simp add: world0_def text_defs)
  from s1 s2 s3 s4 show ?thesis by simp
qed

text \<open>
  C7 (no mapping).  When the input loop returns no mapping, \<open>main\<close> writes the message
  and returns at once: it has made no socket call, closed nothing and started no thread.
\<close>

theorem no_mappings_exit:
  assumes "input Prompt_remote (banner w) = (Returned line, w1)"
      and "str_strip line \<noteq> []"
      and "input_loop (str_strip line) [] w1 = (Returned [], w2)"
  shows "main sigint w = (Finished (Returned ()), print No_mappings w2) \<and>
         threads (print No_mappings w2) = threads w \<and>
         trace (print No_mappings w2) = trace w \<and>
         closed (print No_mappings w2) = closed w"
proof -
  have m: "main sigint w = (Finished (Returned ()), print No_mappings w2)"
    using assms by (simp add: main_def)
  from input_keeps[of Prompt_remote "banner w"] assms(1) banner_keeps[of w]
  have k1: "trace w1 = trace w" "threads w1 = threads w" "closed w1 = closed w" by simp_all
  from input_loop_keeps_sockets[of "str_strip line" "[]" w1] assms(3)
  have k2: "trace w2 = trace w1" "threads w2 = threads w1" "closed w2 = closed w1" by simp_all
  from m k1 k2 show ?thesis by (simp add: print_def)
qed

theorem no_mappings_exit_witness:
  "input Prompt_remote (banner (world0\<lparr>stdin := [''203.0.113.5'', ''127.0.0.1 abc 22'', '''']\<rparr>)) =
     (Returned ''203.0.113.5'',
      world0\<lparr>stdin := [''127.0.0.1 abc 22'', ''''],
             stdout := [Banner 0, Banner 1, Banner 2, Banner 3, Banner 4, Banner 5, Prompt_remote]\<rparr>) \<and>
   str_strip ''203.0.113.5'' \<noteq> [] \<and>
   input_loop (str_strip ''203.0.113.5'') []
      (world0\<lparr>stdin := [''127.0.0.1 abc 22'', ''''],
             stdout := [Banner 0, Banner 1, Banner 2, Banner 3, Banner 4, Banner 5, Prompt_remote]\<rparr>) =
     (Returned [],
      world0\<lparr>stdout := [Banner 0, Banner 1, Banner 2, Banner 3, Banner 4, Banner 5, Prompt_remote,
                         Prompt_mapping, Ports_must_be_integers, Prompt_mapping]\<rparr>) \<and>
   main None (world0\<lparr>stdin := [''203.0.113.5'', ''127.0.0.1 abc 22'', '''']\<rparr>) =
     (Finished (Returned ()),
      world0\<lparr>stdout := [Banner 0, Banner 1, Banner 2, Banner 3, Banner 4, Banner 5, Prompt_remote,
                         Prompt_mapping, Ports_must_be_integers, Prompt_mapping, No_mappings]\<rparr>)"
proof -
  have a: "input Prompt_remote (banner (world0\<lparr>stdin := [''203.0.113.5'', ''127.0.0.1 abc 22'', '''']\<rparr>)) =
     (Returned ''203.0.113.5'',
      world0\<lparr>stdin := [''127.0.0.1 abc 22'', ''''],
             stdout := [Banner 0, Banner 1, Banner 2, Banner 3, Banner 4, Banner 5, Prompt_remote]\<rparr>)"
    by (simp add: input_def banner_def print_def world0_def)
  have b: "str_strip ''203.0.113.5'' \<noteq> []"
    by (simp add: text_defs)
  have c: "input_loop (str_strip ''203.0.113.5'') []
      (world0\<lparr>stdin := [''127.0.0.1 abc 22'', ''''],
             stdout := [Banner 0, Banner 1, Banner 2, Banner 3, Banner 4, Banner 5, Prompt_remote]\<rparr>) =
     (Returned [],
      world0\<lparr>stdout := [Banner 0, Banner 1, Banner 2, Banner 3, Banner 4, Banner 5, Prompt_remote,
                         Prompt_mapping, Ports_must_be_integers, Prompt_mapping]\<rparr>)"
    by (simp add: input_loop.simps input_def print_def world0_def Let_def text_defs)
  from no_mappings_exit[OF a b c, of None] a b c show ?thesis
    by (simp add: print_def world0_def)
qed

text \<open>
  C10 (empty remote address).  When the first line is empty once stripped, \<open>main\<close>
  writes the banner, that prompt and the message, and returns: it has read that one line
  only, written no prompt for a mapping, made no socket call and started no thread.
\<close>

theorem empty_remote_exit:
  assumes "stdin w = line # rest" and "str_strip line = []"
  shows "main sigint w =
           (Finished (Returned ()),
            w\<lparr>stdin := rest,
              stdout := stdout w @ [Banner 0, Banner 1, Banner 2, Banner 3, Banner 4, Banner 5,
                                    Prompt_remote, Remote_required]\<rparr>)"
  using assms by (cases w) (simp add: main_def input_def banner_def print_def)

theorem empty_remote_exit_witness:
  "stdin (world0\<lparr>stdin := [''   '', ''127.0.0.1 2222 22'']\<rparr>) = ''   '' # [''127.0.0.1 2222 22''] \<and>
   str_strip ''   '' = [] \<and>
   main None (world0\<lparr>stdin := [''   '', ''127.0.0.1 2222 22'']\<rparr>) =
     (Finished (Returned ()),
      world0\<lparr>stdin := [''127.0.0.1 2222 22''],
             stdout := [Banner 0, Banner 1, Banner 2, Banner 3, Banner 4, Banner 5,
                        Prompt_remote, Remote_required]\<rparr>)"
proof -
  have a: "stdin (world0\<lparr>stdin := [''   '', ''127.0.0.1 2222 22'']\<rparr>) = ''   '' # [''127.0.0.1 2222 22'']"
    by simp
  have b: "str_strip ''   '' = []"
    by (simp add: text_defs)
  from empty_remote_exit[OF a b, of None] a b show ?thesis
    by (simp add: world0_def)
qed

end
